theory Spec2Isabelle
  imports Main
begin

text \<open>
  The organization-scoped data access of the analytics platform: the role policy and the
  access guard of \<^verbatim>\<open>lib/rbac\<close>, the gateway \<^verbatim>\<open>OrgDatabase\<close> of \<^verbatim>\<open>lib/db-org\<close>, the
  extraction of the organization id in the middleware, and the dashboard aggregation of
  the server actions, over the tables of \<^verbatim>\<open>packages/db/src/schema.ts\<close>. Asynchronous
  functions are modelled by their results on one database state; a thrown error is the
  left summand of the result.
\<close>

section \<open>JavaScript values used by the code\<close>

text \<open>
  The JavaScript \<^verbatim>\<open>number\<close>s of the code are ids and results of \<^verbatim>\<open>parseInt\<close>: they are
  \<^verbatim>\<open>NaN\<close>, an infinity, or a double whose value is an integer. Numbers with a fractional
  part do not occur in the model, and \<^verbatim>\<open>-0\<close> is its number 0: the code tests a number
  for truthiness and for its sign and sends it to the storage layer, which do not tell
  the two apart.
\<close>

datatype jsnum = NaN | PosInfinity | NegInfinity | Num int

text \<open>Truthiness of a number: \<^verbatim>\<open>NaN\<close> and \<^verbatim>\<open>0\<close> are falsy.\<close>

fun truthy_num :: "jsnum \<Rightarrow> bool" where
  "truthy_num NaN = False"
| "truthy_num PosInfinity = True"
| "truthy_num NegInfinity = True"
| "truthy_num (Num n) = (n \<noteq> 0)"

text \<open>
  The Number value for a mathematical integer: the nearest double, ties to the even
  significand of 53 bits, and an infinity from \<open>2^1024 - 2^970\<close> on. Below \<open>2^53\<close> the
  value is exact.
\<close>

function bit_length :: "int \<Rightarrow> nat" where
  "bit_length n = (if n \<le> 0 then 0 else Suc (bit_length (n div 2)))"
  by pat_completeness auto
termination
  by (relation "measure nat") auto

declare bit_length.simps [simp del]

definition number_of_int :: "int \<Rightarrow> jsnum" where
  "number_of_int n =
     (let a = \<bar>n\<bar> in
      if a < 2 ^ 53 then Num n
      else
        let e = bit_length a - 53;
            q = a div 2 ^ e;
            r = a mod 2 ^ e;
            m = (if 2 * r > 2 ^ e \<or> (2 * r = 2 ^ e \<and> odd q) then q + 1 else q);
            v = m * 2 ^ e
        in if v \<ge> 2 ^ 1024 then (if n < 0 then NegInfinity else PosInfinity)
           else Num (sgn n * v))"

text \<open>Truthiness of \<^verbatim>\<open>string | null | undefined\<close>: absent and empty strings are falsy.\<close>

fun truthy_str :: "string option \<Rightarrow> bool" where
  "truthy_str None = False"
| "truthy_str (Some s) = (s \<noteq> [])"

text \<open>
  \<^verbatim>\<open>parseInt(string, radix)\<close> (ECMA-262, 19.2.5) on strings of Latin-1 code units:
  leading white space is dropped, one sign is read, a radix of \<open>0\<close> (or none) means 10
  unless the text starts with \<^verbatim>\<open>0x\<close>, and the longest prefix of digits of the radix is
  the value, returned as a Number: rounded to a double, or an infinity; no digit gives
  \<^verbatim>\<open>NaN\<close>.
\<close>

definition isWhiteSpace :: "char \<Rightarrow> bool" where
  "isWhiteSpace c =
     (c \<in> set [CHR 0x09, CHR 0x0A, CHR 0x0B, CHR 0x0C, CHR 0x0D, CHR 0x20, CHR 0xA0])"

definition digitValue :: "char \<Rightarrow> nat option" where
  "digitValue c =
     (let n = (of_char c :: nat) in
      if 48 \<le> n \<and> n \<le> 57 then Some (n - 48)
      else if 97 \<le> n \<and> n \<le> 122 then Some (n - 87)
      else if 65 \<le> n \<and> n \<le> 90 then Some (n - 55)
      else None)"

definition isRadixDigit :: "nat \<Rightarrow> char \<Rightarrow> bool" where
  "isRadixDigit R c = (case digitValue c of None \<Rightarrow> False | Some d \<Rightarrow> d < R)"

definition digitsValue :: "nat \<Rightarrow> string \<Rightarrow> int" where
  "digitsValue R ds = foldl (\<lambda>a c. a * int R + int (the (digitValue c))) 0 ds"

definition hasHexPrefix :: "string \<Rightarrow> bool" where
  "hasHexPrefix s = (take 2 s = ''0x'' \<or> take 2 s = ''0X'')"

definition parseInt :: "string \<Rightarrow> nat \<Rightarrow> jsnum" where
  "parseInt inputString radix =
     (let S = dropWhile isWhiteSpace inputString;
          sign = (if S \<noteq> [] \<and> hd S = CHR ''-'' then - 1 else (1::int));
          S1 = (if S \<noteq> [] \<and> (hd S = CHR ''+'' \<or> hd S = CHR ''-'') then tl S else S)
      in if radix \<noteq> 0 \<and> (radix < 2 \<or> 36 < radix) then NaN
         else
           let stripPrefix = (radix = 0 \<or> radix = 16);
               R0 = (if radix = 0 then 10 else radix);
               hex = (stripPrefix \<and> hasHexPrefix S1);
               S2 = (if hex then drop 2 S1 else S1);
               R = (if hex then 16 else R0);
               Z = takeWhile (isRadixDigit R) S2
           in if Z = [] then NaN else number_of_int (sign * digitsValue R Z))"

section \<open>Role policy (lib/rbac)\<close>

text \<open>
  \<^verbatim>\<open>Role = keyof typeof ROLES\<close> is the union of the three literals. The role stored in
  the \<^verbatim>\<open>user_organizations.role\<close> column is a \<^verbatim>\<open>varchar\<close> that the code casts to
  \<^verbatim>\<open>Role\<close> without a check, so at run time \<^verbatim>\<open>ROLES[x]\<close> is a property lookup by string:
  for a string that is not a key the looked-up value is not a number and every \<^verbatim>\<open>>=\<close>
  with it is false.
\<close>

datatype Role = Owner | Admin | Member

fun role_key :: "Role \<Rightarrow> string" where
  "role_key Owner = ''owner''"
| "role_key Admin = ''admin''"
| "role_key Member = ''member''"

definition ROLES :: "(string \<times> nat) list" where
  "ROLES = [(''owner'', 3), (''admin'', 2), (''member'', 1)]"

definition hasMinimumRole :: "string \<Rightarrow> string \<Rightarrow> bool" where
  "hasMinimumRole userRole requiredRole =
     (case (map_of ROLES userRole, map_of ROLES requiredRole) of
        (Some a, Some b) \<Rightarrow> a \<ge> b
      | _ \<Rightarrow> False)"

text \<open>
  The order of the specification, in its words: member(1) < admin(2) < owner(3).
\<close>

fun spec_rank :: "Role \<Rightarrow> nat" where
  "spec_rank Member = 1"
| "spec_rank Admin = 2"
| "spec_rank Owner = 3"

section \<open>Storage (packages/db/src/schema.ts)\<close>

text \<open>
  The tables of the schema as lists of rows, one record per table with the columns of
  \<^verbatim>\<open>pgTable\<close>. Timestamps are integers (milliseconds), \<^verbatim>\<open>jsonb\<close> values are their text,
  the \<^verbatim>\<open>decimal(15,4)\<close> value of a snapshot is counted in ten-thousandths. A nullable
  column is an \<open>option\<close>. A \<^verbatim>\<open>serial\<close> column takes the next value of the table's
  sequence. A lost connection is outside the model; what the storage layer rejects
  deterministically is in it: a query parameter that is not an \<^verbatim>\<open>integer\<close> of the
  column type, and a row to insert that violates a constraint.
\<close>

record organization =
  org_id :: int
  org_name :: string
  org_slug :: string
  org_plan :: string
  org_billingEmail :: "string option"
  org_stripeCustomerId :: "string option"
  org_createdAt :: int
  org_updatedAt :: int

record userOrganization =
  uo_id :: int
  uo_userId :: int
  uo_organizationId :: int
  uo_role :: string
  uo_createdAt :: int

record project =
  p_id :: int
  p_organizationId :: int
  p_name :: string
  p_description :: "string option"
  p_apiKey :: string
  p_domain :: "string option"
  p_isActive :: bool
  p_createdAt :: int
  p_updatedAt :: int

record event =
  e_id :: int
  e_organizationId :: int
  e_projectId :: int
  e_eventName :: string
  e_userId :: "string option"
  e_sessionId :: "string option"
  e_metadata :: "string option"
  e_timestamp :: int
  e_ipAddress :: "string option"
  e_userAgent :: "string option"
  e_createdAt :: int

record kpiSnapshot =
  k_id :: int
  k_organizationId :: int
  k_projectId :: "int option"
  k_key :: string
  k_periodStart :: int
  k_periodEnd :: int
  k_value :: int
  k_metadata :: "string option"
  k_createdAt :: int
  k_updatedAt :: int

record database =
  organizations :: "organization list"
  userOrganizations :: "userOrganization list"
  projects :: "project list"
  events :: "event list"
  kpiSnapshots :: "kpiSnapshot list"
  projects_id_seq :: int
  events_id_seq :: int
  kpi_snapshots_id_seq :: int

text \<open>
  The query builder: \<^verbatim>\<open>where\<close> keeps the rows that satisfy every condition of
  \<^verbatim>\<open>and(...)\<close>, \<^verbatim>\<open>orderBy(column)\<close> sorts ascending (rows with equal keys keep their
  stored order), \<^verbatim>\<open>limit(n)\<close> keeps the first \<open>n\<close> rows of the ordered result, and
  \<^verbatim>\<open>innerJoin\<close> pairs each row with the rows of the other table that satisfy the join
  condition. The SQL clause order is fixed whatever the order of the builder calls:
  \<^verbatim>\<open>WHERE\<close>, then \<^verbatim>\<open>ORDER BY\<close>, then \<^verbatim>\<open>LIMIT\<close>.
\<close>

definition sql_where :: "('a \<Rightarrow> bool) list \<Rightarrow> 'a list \<Rightarrow> 'a list" where
  "sql_where conditions rows = filter (\<lambda>r. list_all (\<lambda>c. c r) conditions) rows"

definition sql_limit :: "nat \<Rightarrow> 'a list \<Rightarrow> 'a list" where
  "sql_limit n rows = take n rows"

definition sql_orderBy :: "('a \<Rightarrow> int) \<Rightarrow> 'a list \<Rightarrow> 'a list" where
  "sql_orderBy column rows = sort_key column rows"

definition sql_innerJoin :: "'a list \<Rightarrow> 'b list \<Rightarrow> ('a \<Rightarrow> 'b \<Rightarrow> bool) \<Rightarrow> ('a \<times> 'b) list" where
  "sql_innerJoin xs ys on = concat (map (\<lambda>x. map (\<lambda>y. (x, y)) (filter (on x) ys)) xs)"

text \<open>
  The id columns have the type \<^verbatim>\<open>integer\<close> (int4). A JavaScript number sent as the
  parameter of \<^verbatim>\<open>eq(column, value)\<close> on such a column, or as the value of such a column,
  is accepted when it is an integer from \<open>-2^31\<close> to \<open>2^31 - 1\<close>; for every other number
  (\<^verbatim>\<open>NaN\<close>, an infinity, an integer out of the range) PostgreSQL rejects the statement
  and the query throws.
\<close>

definition int4 :: "int \<Rightarrow> bool" where
  "int4 n = (- 2147483648 \<le> n \<and> n \<le> 2147483647)"

fun sql_int4_param :: "jsnum \<Rightarrow> int option" where
  "sql_int4_param (Num n) = (if int4 n then Some n else None)"
| "sql_int4_param NaN = None"
| "sql_int4_param PosInfinity = None"
| "sql_int4_param NegInfinity = None"

section \<open>Sessions and errors\<close>

text \<open>
  \<^verbatim>\<open>getServerSession\<close> yields the session or nothing. \<^verbatim>\<open>session?.user?.id\<close> and
  \<^verbatim>\<open>session?.user?.email\<close> are absent when the session or the user is; the session
  callback fills \<^verbatim>\<open>organizations\<close>.
\<close>

record sessionOrg =
  so_id :: int
  so_name :: string
  so_slug :: string
  so_role :: string

record sessionUser =
  su_id :: "string option"
  su_email :: "string option"
  su_organizations :: "sessionOrg list option"

type_synonym session = "sessionUser option"

text \<open>
  The thrown \<^verbatim>\<open>Error\<close>s, by their messages: \<^verbatim>\<open>Unauthorized: ...\<close>,
  \<^verbatim>\<open>Forbidden: User not a member of this organization\<close>,
  \<^verbatim>\<open>Forbidden: Requires one of these roles: ...\<close> and
  \<^verbatim>\<open>Project not found or access denied\<close>; and the error that the query builder throws
  when the storage layer rejects a statement.
\<close>

datatype error =
  Unauthorized | NotAMember | InsufficientRole "Role list" | ProjectNotFound | StorageError

text \<open>\<^verbatim>\<open>parseInt(x)\<close> of a value that may be \<^verbatim>\<open>undefined\<close>: the argument is first
  converted to a string.\<close>

definition parseInt_id :: "string option \<Rightarrow> jsnum" where
  "parseInt_id x = (case x of None \<Rightarrow> parseInt ''undefined'' 0 | Some s \<Rightarrow> parseInt s 0)"

section \<open>Access guard (lib/rbac)\<close>

text \<open>
  The parameters \<^verbatim>\<open>orgId\<close> and \<^verbatim>\<open>projectId\<close> of type \<^verbatim>\<open>number\<close> are integers in the
  model, of any size. The user id of the session is a string, parsed by \<^verbatim>\<open>parseInt\<close> in
  the query. The membership query has both as parameters and throws when one of them is
  not an int4.
\<close>

definition assertRole :: "session \<Rightarrow> database \<Rightarrow> int \<Rightarrow> Role list \<Rightarrow> error + (string \<times> int)" where
  "assertRole session db orgId requiredRoles =
     (case session of
        None \<Rightarrow> Inl Unauthorized
      | Some user \<Rightarrow>
          if \<not> truthy_str (su_email user) then Inl Unauthorized
          else
            (case (sql_int4_param (Num orgId), sql_int4_param (parseInt_id (su_id user))) of
               (Some orgParam, Some userParam) \<Rightarrow>
                 let userOrg =
                       sql_limit 1
                         (map (\<lambda>(m, org). uo_role m)
                           (sql_where
                              [\<lambda>(m, org). uo_organizationId m = orgParam,
                               \<lambda>(m, org). uo_userId m = userParam]
                              (sql_innerJoin (userOrganizations db) (organizations db)
                                 (\<lambda>m org. org_id org = uo_organizationId m))))
                 in (case userOrg of
                       [] \<Rightarrow> Inl NotAMember
                     | userRole # _ \<Rightarrow>
                         let hasPermission =
                               list_ex (\<lambda>role. hasMinimumRole userRole (role_key role))
                                 requiredRoles
                         in if \<not> hasPermission then Inl (InsufficientRole requiredRoles)
                            else Inr (userRole, orgId))
             | _ \<Rightarrow> Inl StorageError))"

definition canAccessOrg :: "session \<Rightarrow> database \<Rightarrow> int \<Rightarrow> bool" where
  "canAccessOrg session db orgId =
     (case assertRole session db orgId [Member] of Inl _ \<Rightarrow> False | Inr _ \<Rightarrow> True)"

section \<open>Tenant-scoped gateway (lib/db-org)\<close>

record OrgDatabase =
  orgId :: int
  userId :: string

definition OrgDatabase_create :: "session \<Rightarrow> database \<Rightarrow> int \<Rightarrow> error + OrgDatabase" where
  "OrgDatabase_create session db orgId' =
     (case session of
        None \<Rightarrow> Inl Unauthorized
      | Some user \<Rightarrow>
          if \<not> truthy_str (su_id user) then Inl Unauthorized
          else
            (case (sql_int4_param (Num orgId'), sql_int4_param (parseInt_id (su_id user))) of
               (Some orgParam, Some userParam) \<Rightarrow>
                 let membership =
                       sql_limit 1
                         (sql_where
                            [\<lambda>m. uo_organizationId m = orgParam,
                             \<lambda>m. uo_userId m = userParam]
                            (userOrganizations db))
                 in if length membership = 0 then Inl NotAMember
                    else Inr \<lparr>orgId = orgId', userId = the (su_id user)\<rparr>
             | _ \<Rightarrow> Inl StorageError))"

definition getOrgDb :: "session \<Rightarrow> database \<Rightarrow> int \<Rightarrow> error + OrgDatabase" where
  "getOrgDb session db orgId' = OrgDatabase_create session db orgId'"

definition getProjects :: "OrgDatabase \<Rightarrow> database \<Rightarrow> project list" where
  "getProjects this db = sql_where [\<lambda>p. p_organizationId p = orgId this] (projects db)"

text \<open>
  The id of a gateway is the one that \<^verbatim>\<open>create\<close> has matched with a stored row. The
  project id of \<^verbatim>\<open>getProject\<close> is a parameter of its query.
\<close>

definition getProject :: "OrgDatabase \<Rightarrow> database \<Rightarrow> int \<Rightarrow> error + project option" where
  "getProject this db projectId =
     (case sql_int4_param (Num projectId) of
        None \<Rightarrow> Inl StorageError
      | Some projectParam \<Rightarrow>
          let result =
                sql_limit 1
                  (sql_where
                     [\<lambda>p. p_id p = projectParam, \<lambda>p. p_organizationId p = orgId this]
                     (projects db))
          in Inr (case result of [] \<Rightarrow> None | p # _ \<Rightarrow> Some p))"

text \<open>
  An optional number parameter is \<open>None\<close> when it is left out or \<^verbatim>\<open>undefined\<close>;
  \<^verbatim>\<open>if (projectId)\<close> tests its truthiness, and \<^verbatim>\<open>0\<close> is falsy. The default of
  \<^verbatim>\<open>limit\<close> is 1000. The two reads with a filter are modelled by the rows they return:
  a project id out of the int4 range, for which the query throws and returns no row, is
  not told apart from a project id that no row has.
\<close>

fun truthy_int :: "int option \<Rightarrow> bool" where
  "truthy_int None = False"
| "truthy_int (Some n) = (n \<noteq> 0)"

definition getEvents :: "OrgDatabase \<Rightarrow> database \<Rightarrow> int option \<Rightarrow> nat option \<Rightarrow> event list" where
  "getEvents this db projectId limit =
     (let limit' = (case limit of None \<Rightarrow> 1000 | Some n \<Rightarrow> n);
          conditions = [\<lambda>e. e_organizationId e = orgId this];
          conditions' =
            (if truthy_int projectId
             then conditions @ [\<lambda>e. e_projectId e = the projectId]
             else conditions)
      in sql_limit limit' (sql_orderBy e_timestamp (sql_where conditions' (events db))))"

definition getKpiSnapshots ::
    "OrgDatabase \<Rightarrow> database \<Rightarrow> int option \<Rightarrow> string option \<Rightarrow> kpiSnapshot list" where
  "getKpiSnapshots this db projectId key =
     (let conditions = [\<lambda>k. k_organizationId k = orgId this];
          conditions' =
            (if truthy_int projectId
             then conditions @ [\<lambda>k. k_projectId k = Some (the projectId)]
             else conditions);
          conditions'' =
            (if truthy_str key
             then conditions' @ [\<lambda>k. k_key k = the key]
             else conditions')
      in sql_orderBy k_periodStart (sql_where conditions'' (kpiSnapshots db)))"

text \<open>
  \<^verbatim>\<open>generateApiKey\<close>: 32 characters, each \<^verbatim>\<open>chars.charAt(Math.floor(Math.random() *
  chars.length))\<close>. The argument \<open>rnd i\<close> is the index drawn in round \<open>i\<close>;
  \<^verbatim>\<open>charAt\<close> out of range is the empty string.
\<close>

definition charAt :: "string \<Rightarrow> nat \<Rightarrow> string" where
  "charAt s i = (if i < length s then [s ! i] else [])"

definition generateApiKey :: "(nat \<Rightarrow> nat) \<Rightarrow> string" where
  "generateApiKey rnd =
     (let chars = ''ABCDEFGHIJKLMNOPQRSTUVWXYZabcdefghijklmnopqrstuvwxyz0123456789''
      in foldl (\<lambda>result i. result @ charAt chars (rnd i)) [] [0..<32])"

record projectData =
  pd_name :: string
  pd_description :: "string option"
  pd_domain :: "string option"

text \<open>
  An insert appends the row when the storage layer accepts it, and throws otherwise.
  The verdict of the storage layer on a row (its foreign keys, keys, column lengths and
  encodings) is the parameter \<open>accepts\<close> of the model. A column left out takes its default:
  the next value of the sequence for the id, and the time \<open>now\<close> for the
  \<^verbatim>\<open>defaultNow()\<close> columns; \<^verbatim>\<open>returning()\<close> gives the inserted rows.
\<close>

definition createProject ::
    "OrgDatabase \<Rightarrow> database \<Rightarrow> (database \<Rightarrow> project \<Rightarrow> bool) \<Rightarrow> projectData \<Rightarrow> (nat \<Rightarrow> nat) \<Rightarrow> int
       \<Rightarrow> error + database \<times> project list" where
  "createProject this db accepts data rnd now =
     (let apiKey = generateApiKey rnd;
          row = \<lparr>p_id = projects_id_seq db + 1,
                 p_organizationId = orgId this,
                 p_name = pd_name data,
                 p_description = pd_description data,
                 p_apiKey = apiKey,
                 p_domain = pd_domain data,
                 p_isActive = True,
                 p_createdAt = now,
                 p_updatedAt = now\<rparr>
      in if accepts db row
         then Inr (db\<lparr>projects := projects db @ [row],
                      projects_id_seq := projects_id_seq db + 1\<rparr>,
                   [row])
         else Inl StorageError)"

text \<open>
  The parameter \<^verbatim>\<open>eventData\<close> has an object type with six declared properties. An
  object type is open: a value of it may carry further own properties, and the inserted
  object \<^verbatim>\<open>{ organizationId: this.orgId, projectId, ...eventData }\<close> takes every own
  property of \<^verbatim>\<open>eventData\<close> after the two stamped ones. The further properties that
  name a column of \<^verbatim>\<open>events\<close> are the last five fields of the record, \<open>None\<close> when the
  object does not have the property; properties that name no column are ignored by the
  insert.
\<close>

record eventData =
  ed_eventName :: string
  ed_userId :: "string option"
  ed_sessionId :: "string option"
  ed_metadata :: "string option"
  ed_ipAddress :: "string option"
  ed_userAgent :: "string option"
  ed_id :: "jsnum option"
  ed_organizationId :: "jsnum option"
  ed_projectId :: "jsnum option"
  ed_timestamp :: "int option"
  ed_createdAt :: "int option"

text \<open>The event data with the six declared properties and no other column property.\<close>

definition eventData_declared_only :: "eventData \<Rightarrow> bool" where
  "eventData_declared_only data =
     (ed_id data = None \<and> ed_organizationId data = None \<and> ed_projectId data = None
      \<and> ed_timestamp data = None \<and> ed_createdAt data = None)"

definition insertEvent ::
    "OrgDatabase \<Rightarrow> database \<Rightarrow> (database \<Rightarrow> event \<Rightarrow> bool) \<Rightarrow> int \<Rightarrow> eventData \<Rightarrow> int
       \<Rightarrow> error + database \<times> event list" where
  "insertEvent this db accepts projectId data now =
     (case getProject this db projectId of
        Inl err \<Rightarrow> Inl err
      | Inr None \<Rightarrow> Inl ProjectNotFound
      | Inr (Some project) \<Rightarrow>
          let organizationId' =
                (case ed_organizationId data of
                   None \<Rightarrow> Some (orgId this) | Some v \<Rightarrow> sql_int4_param v);
              projectId' =
                (case ed_projectId data of
                   None \<Rightarrow> Some projectId | Some v \<Rightarrow> sql_int4_param v);
              id' =
                (case ed_id data of
                   None \<Rightarrow> Some (events_id_seq db + 1) | Some v \<Rightarrow> sql_int4_param v);
              seq' =
                (case ed_id data of
                   None \<Rightarrow> events_id_seq db + 1 | Some v \<Rightarrow> events_id_seq db)
          in (case (organizationId', projectId', id') of
                (Some org, Some proj, Some i) \<Rightarrow>
                  let row = \<lparr>e_id = i,
                             e_organizationId = org,
                             e_projectId = proj,
                             e_eventName = ed_eventName data,
                             e_userId = ed_userId data,
                             e_sessionId = ed_sessionId data,
                             e_metadata = ed_metadata data,
                             e_timestamp =
                               (case ed_timestamp data of None \<Rightarrow> now | Some t \<Rightarrow> t),
                             e_ipAddress = ed_ipAddress data,
                             e_userAgent = ed_userAgent data,
                             e_createdAt =
                               (case ed_createdAt data of None \<Rightarrow> now | Some t \<Rightarrow> t)\<rparr>
                  in if accepts db row
                     then Inr (db\<lparr>events := events db @ [row], events_id_seq := seq'\<rparr>,
                               [row])
                     else Inl StorageError
              | _ \<Rightarrow> Inl StorageError))"

text \<open>
  The row that \<^verbatim>\<open>insertEvent\<close> builds from event data with the declared properties only.
\<close>

definition declared_event_row :: "OrgDatabase \<Rightarrow> database \<Rightarrow> int \<Rightarrow> eventData \<Rightarrow> int \<Rightarrow> event" where
  "declared_event_row this db projectId data now =
     \<lparr>e_id = events_id_seq db + 1,
      e_organizationId = orgId this,
      e_projectId = projectId,
      e_eventName = ed_eventName data,
      e_userId = ed_userId data,
      e_sessionId = ed_sessionId data,
      e_metadata = ed_metadata data,
      e_timestamp = now,
      e_ipAddress = ed_ipAddress data,
      e_userAgent = ed_userAgent data,
      e_createdAt = now\<rparr>"

definition getOrganization :: "OrgDatabase \<Rightarrow> database \<Rightarrow> organization list" where
  "getOrganization this db = sql_limit 1 (sql_where [\<lambda>org. org_id org = orgId this] (organizations db))"



section \<open>Organization utilities (lib/org-utils)\<close>

definition getUserOrgMembership :: "session \<Rightarrow> int \<Rightarrow> sessionOrg option" where
  "getUserOrgMembership session orgId' =
     (case session of
        None \<Rightarrow> None
      | Some user \<Rightarrow>
          (case su_organizations user of
             None \<Rightarrow> None
           | Some orgs \<Rightarrow> find (\<lambda>org. so_id org = orgId') orgs))"

text \<open>
  \<^verbatim>\<open>roleHierarchy[membership.role] || 0\<close>: a role string that is not a key has level 0.
\<close>

definition roleHierarchy :: "(string \<times> nat) list" where
  "roleHierarchy = [(''member'', 1), (''admin'', 2), (''owner'', 3)]"

definition hasOrgAccess :: "session \<Rightarrow> int \<Rightarrow> Role \<Rightarrow> bool" where
  "hasOrgAccess session orgId' minRole =
     (case getUserOrgMembership session orgId' of
        None \<Rightarrow> False
      | Some membership \<Rightarrow>
          let userRoleLevel =
                (case map_of roleHierarchy (so_role membership) of None \<Rightarrow> 0 | Some n \<Rightarrow> n)
          in case map_of roleHierarchy (role_key minRole) of
               None \<Rightarrow> False
             | Some minRoleLevel \<Rightarrow> userRoleLevel \<ge> minRoleLevel)"

text \<open>
  \<^verbatim>\<open>orgId > 0 && Number.isInteger(orgId)\<close>: an infinity is greater than zero and is not
  an integer.
\<close>

definition isValidOrgId :: "jsnum \<Rightarrow> bool" where
  "isValidOrgId v = (case v of Num n \<Rightarrow> n > 0 | _ \<Rightarrow> False)"

definition parseOrgId :: "string option \<Rightarrow> jsnum option" where
  "parseOrgId v =
     (if \<not> truthy_str v then None
      else let parsed = parseInt (the v) 10
           in if isValidOrgId parsed then Some parsed else None)"

section \<open>Context extraction (middleware/org-middleware)\<close>

text \<open>
  The parts of a \<^verbatim>\<open>NextRequest\<close> the middleware reads: the search parameters in their
  order (\<^verbatim>\<open>get\<close> gives the first value of a name), the headers by their lower-case
  names, and the path of the URL.
\<close>

record nextRequest =
  req_searchParams :: "(string \<times> string) list"
  req_headers :: "(string \<times> string) list"
  req_pathname :: string

definition searchParams_get :: "(string \<times> string) list \<Rightarrow> string \<Rightarrow> string option" where
  "searchParams_get params name = map_of params name"

definition headers_get :: "(string \<times> string) list \<Rightarrow> string \<Rightarrow> string option" where
  "headers_get hdrs name = map_of hdrs name"

text \<open>
  \<^verbatim>\<open>pathname.match(/\/api\/org\/(\d+)/)\<close>: the leftmost position where \<^verbatim>\<open>/api/org/\<close> is
  followed by a decimal digit; the group is the longest run of digits there.
\<close>

definition isDecimalDigit :: "char \<Rightarrow> bool" where
  "isDecimalDigit c = (c \<in> set ''0123456789'')"

fun match_api_org :: "string \<Rightarrow> string option" where
  "match_api_org [] = None"
| "match_api_org (c # cs) =
     (let digits = takeWhile isDecimalDigit (drop 9 (c # cs))
      in if take 9 (c # cs) = ''/api/org/'' \<and> digits \<noteq> [] then Some digits
         else match_api_org cs)"

definition getOrgIdFromRequest :: "nextRequest \<Rightarrow> jsnum option" where
  "getOrgIdFromRequest req =
     (let urlOrgId = searchParams_get (req_searchParams req) ''orgId''
      in if truthy_str urlOrgId then Some (parseInt (the urlOrgId) 10)
         else
           let headerOrgId = headers_get (req_headers req) ''x-org-id''
           in if truthy_str headerOrgId then Some (parseInt (the headerOrgId) 10)
              else
                (case match_api_org (req_pathname req) of
                   Some group1 \<Rightarrow> Some (parseInt group1 10)
                 | None \<Rightarrow> None))"

text \<open>The token's organizations, by id; \<^verbatim>\<open>org.id === orgId\<close> is false for \<^verbatim>\<open>NaN\<close>.\<close>

record extendedJWT =
  jwt_organizations :: "int list option"

definition verifyOrgAccess :: "extendedJWT \<Rightarrow> jsnum \<Rightarrow> bool" where
  "verifyOrgAccess token orgId' =
     (let userOrganizations' = (case jwt_organizations token of None \<Rightarrow> [] | Some l \<Rightarrow> l)
      in list_ex (\<lambda>org_id'. Num org_id' = orgId') userOrganizations')"

text \<open>
  The outcome of the middleware: the request goes on unchanged, is answered with 403, or
  goes on with the header \<^verbatim>\<open>x-org-id\<close> set to the organization id.
\<close>

datatype middlewareResult = Next | Forbidden403 | NextWithOrgId jsnum

definition orgMiddleware :: "extendedJWT option \<Rightarrow> nextRequest \<Rightarrow> middlewareResult" where
  "orgMiddleware token req =
     (case token of
        None \<Rightarrow> Next
      | Some tok \<Rightarrow>
          (case getOrgIdFromRequest req of
             None \<Rightarrow> Next
           | Some orgId' \<Rightarrow>
               if \<not> truthy_num orgId' then Next
               else if \<not> verifyOrgAccess tok orgId' then Forbidden403
               else NextWithOrgId orgId'))"

text \<open>
  The candidates of the three sources in the order in which the code reads them, the
  absent and the empty ones left out.
\<close>

definition orgIdCandidates :: "nextRequest \<Rightarrow> string list" where
  "orgIdCandidates req =
     filter (\<lambda>c. c \<noteq> [])
       (concat (map (\<lambda>x. case x of None \<Rightarrow> [] | Some c \<Rightarrow> [c])
          [searchParams_get (req_searchParams req) ''orgId'',
           headers_get (req_headers req) ''x-org-id'',
           match_api_org (req_pathname req)]))"

section \<open>Integrity constraints of the schema\<close>

text \<open>
  \<^verbatim>\<open>uniq_user_org\<close>: one row of \<^verbatim>\<open>user_organizations\<close> per (user, organization). The
  foreign key of \<^verbatim>\<open>user_organizations.organization_id\<close>: the organization of every
  membership is a row of \<^verbatim>\<open>organizations\<close>.
\<close>

definition uniq_user_org :: "userOrganization list \<Rightarrow> bool" where
  "uniq_user_org rows = distinct (map (\<lambda>m. (uo_userId m, uo_organizationId m)) rows)"

definition user_organizations_organization_fk :: "database \<Rightarrow> bool" where
  "user_organizations_organization_fk db =
     list_all (\<lambda>m. list_ex (\<lambda>org. org_id org = uo_organizationId m) (organizations db))
       (userOrganizations db)"


text \<open>
  The constraints that the schema declares for a row of \<^verbatim>\<open>events\<close> and of
  \<^verbatim>\<open>projects\<close>: the primary key, the foreign keys, the unique API key and the lengths
  of the \<^verbatim>\<open>varchar\<close> columns. They are the verdict of the storage layer in the examples.
\<close>

definition varchar_opt :: "nat \<Rightarrow> string option \<Rightarrow> bool" where
  "varchar_opt n x = (case x of None \<Rightarrow> True | Some s \<Rightarrow> length s \<le> n)"

definition events_constraints :: "database \<Rightarrow> event \<Rightarrow> bool" where
  "events_constraints db row =
     (int4 (e_id row) \<and> e_id row \<notin> set (map e_id (events db))
      \<and> list_ex (\<lambda>org. org_id org = e_organizationId row) (organizations db)
      \<and> list_ex (\<lambda>p. p_id p = e_projectId row) (projects db)
      \<and> length (e_eventName row) \<le> 255
      \<and> varchar_opt 255 (e_userId row) \<and> varchar_opt 255 (e_sessionId row)
      \<and> varchar_opt 45 (e_ipAddress row))"

definition projects_constraints :: "database \<Rightarrow> project \<Rightarrow> bool" where
  "projects_constraints db row =
     (int4 (p_id row) \<and> p_id row \<notin> set (map p_id (projects db))
      \<and> list_ex (\<lambda>org. org_id org = p_organizationId row) (organizations db)
      \<and> length (p_name row) \<le> 255
      \<and> length (p_apiKey row) \<le> 64 \<and> p_apiKey row \<notin> set (map p_apiKey (projects db))
      \<and> varchar_opt 255 (p_domain row))"

section \<open>The scenario of the specification\<close>

text \<open>
  Organization 1 has the membership of user 7 with role member; organization 2 has no
  membership of user 7. The session is the one of user 7.
\<close>

definition scenario_org :: "int \<Rightarrow> string \<Rightarrow> organization" where
  "scenario_org i n =
     \<lparr>org_id = i, org_name = n, org_slug = n, org_plan = ''free'', org_billingEmail = None,
      org_stripeCustomerId = None, org_createdAt = 0, org_updatedAt = 0\<rparr>"

definition scenario_db :: database where
  "scenario_db =
     \<lparr>organizations = [scenario_org 1 ''one'', scenario_org 2 ''two''],
      userOrganizations =
        [\<lparr>uo_id = 1, uo_userId = 7, uo_organizationId = 1, uo_role = ''member'', uo_createdAt = 0\<rparr>,
         \<lparr>uo_id = 2, uo_userId = 8, uo_organizationId = 2, uo_role = ''owner'', uo_createdAt = 0\<rparr>],
      projects = [], events = [], kpiSnapshots = [],
      projects_id_seq = 0, events_id_seq = 0, kpi_snapshots_id_seq = 0\<rparr>"


definition scenario_session :: session where
  "scenario_session =
     Some \<lparr>su_id = Some ''7'', su_email = Some ''user7@example.com'', su_organizations = None\<rparr>"


text \<open>The primary key of \<^verbatim>\<open>projects\<close>: one row per id.\<close>

definition projects_pkey :: "project list \<Rightarrow> bool" where
  "projects_pkey rows = distinct (map p_id rows)"

text \<open>
  A database with two tenants for the examples: project 5 and two events belong to
  organization 1, project 6 and one event to organization 2. The API key of project \<open>i\<close>
  has 32 characters, the first \<open>i\<close> of them \<^verbatim>\<open>k\<close>, so that the keys of the projects differ.
\<close>

definition example_project :: "int \<Rightarrow> int \<Rightarrow> bool \<Rightarrow> project" where
  "example_project i org active =
     \<lparr>p_id = i, p_organizationId = org, p_name = ''site'', p_description = None,
      p_apiKey = replicate (nat i) (CHR ''k'') @ replicate (32 - nat i) (CHR ''a''),
      p_domain = None, p_isActive = active,
      p_createdAt = 0, p_updatedAt = 0\<rparr>"

definition example_event :: "int \<Rightarrow> int \<Rightarrow> int \<Rightarrow> int \<Rightarrow> event" where
  "example_event i org proj ts =
     \<lparr>e_id = i, e_organizationId = org, e_projectId = proj, e_eventName = ''page_view'',
      e_userId = None, e_sessionId = None, e_metadata = None, e_timestamp = ts,
      e_ipAddress = None, e_userAgent = None, e_createdAt = ts\<rparr>"

definition example_kpi :: "int \<Rightarrow> int \<Rightarrow> int option \<Rightarrow> int \<Rightarrow> int \<Rightarrow> kpiSnapshot" where
  "example_kpi i org proj start v =
     \<lparr>k_id = i, k_organizationId = org, k_projectId = proj, k_key = ''daily_page_views'',
      k_periodStart = start, k_periodEnd = start + 86400000, k_value = v, k_metadata = None,
      k_createdAt = 0, k_updatedAt = 0\<rparr>"

definition example_db :: database where
  "example_db =
     scenario_db
       \<lparr>projects := [example_project 5 1 True, example_project 6 2 True],
        events := [example_event 1 1 5 30, example_event 2 2 6 20, example_event 3 1 5 10],
        kpiSnapshots := [example_kpi 1 1 (Some 5) 200 7, example_kpi 2 2 (Some 6) 100 9,
                         example_kpi 3 1 None 100 11],
        projects_id_seq := 6, events_id_seq := 3, kpi_snapshots_id_seq := 3\<rparr>"

definition example_gateway :: OrgDatabase where
  "example_gateway = \<lparr>orgId = 1, userId = ''7''\<rparr>"

definition example_eventData :: eventData where
  "example_eventData =
     \<lparr>ed_eventName = ''purchase'', ed_userId = None, ed_sessionId = None, ed_metadata = None,
      ed_ipAddress = None, ed_userAgent = None, ed_id = None, ed_organizationId = None,
      ed_projectId = None, ed_timestamp = None, ed_createdAt = None\<rparr>"

text \<open>
  Event data that carries two further own properties, as a variable of a wider object
  type does: \<^verbatim>\<open>{ eventName: "purchase", organizationId: 2, projectId: 6 }\<close>.
\<close>

definition spread_eventData :: eventData where
  "spread_eventData =
     example_eventData\<lparr>ed_organizationId := Some (Num 2), ed_projectId := Some (Num 6)\<rparr>"

text \<open>Event data that carries one further own property: \<^verbatim>\<open>{ eventName: "purchase", organizationId: 2 }\<close>.\<close>

definition foreign_org_eventData :: eventData where
  "foreign_org_eventData = example_eventData\<lparr>ed_organizationId := Some (Num 2)\<rparr>"

definition example_projectData :: projectData where
  "example_projectData = \<lparr>pd_name = ''shop'', pd_description = None, pd_domain = None\<rparr>"

section \<open>Dashboard aggregation (app/actions/org-actions)\<close>

text \<open>
  \<^verbatim>\<open>getOrgDashboard\<close> catches every error and returns \<^verbatim>\<open>{ success: false, error }\<close>; the
  model returns the error. The three reads of \<^verbatim>\<open>Promise.all\<close> are reads of the same
  database state.
\<close>

record dashboardMetrics =
  totalProjects :: nat
  activeProjects :: nat
  totalEvents :: nat

record dashboard =
  d_organization :: "organization list"
  d_metrics :: dashboardMetrics
  d_projects :: "project list"
  d_recentEvents :: "event list"
  d_kpiSnapshots :: "kpiSnapshot list"

definition getOrgDashboard :: "session \<Rightarrow> database \<Rightarrow> int \<Rightarrow> error + dashboard" where
  "getOrgDashboard session db orgId' =
     (case assertRole session db orgId' [Member] of
        Inl err \<Rightarrow> Inl err
      | Inr _ \<Rightarrow>
          (case getOrgDb session db orgId' of
             Inl err \<Rightarrow> Inl err
           | Inr orgDb \<Rightarrow>
               let projects' = getProjects orgDb db;
                   recentEvents = getEvents orgDb db None (Some 10);
                   kpiSnapshots' = getKpiSnapshots orgDb db None None;
                   totalProjects' = length projects';
                   activeProjects' = length (filter p_isActive projects');
                   totalEvents' = length recentEvents
               in Inr \<lparr>d_organization = getOrganization orgDb db,
                        d_metrics = \<lparr>totalProjects = totalProjects',
                                     activeProjects = activeProjects',
                                     totalEvents = totalEvents'\<rparr>,
                        d_projects = projects',
                        d_recentEvents = recentEvents,
                        d_kpiSnapshots = kpiSnapshots'\<rparr>))"

text \<open>
  The scenario database with one active and one inactive project of organization 1 and
  eleven events of organization 1, stored newest first, with the timestamps 11 down to 1.
\<close>

definition dashboard_db :: database where
  "dashboard_db =
     scenario_db
       \<lparr>projects := [example_project 5 1 True, example_project 6 2 True, example_project 7 1 False],
        events := map (\<lambda>i. example_event i 1 5 i) [11, 10, 9, 8, 7, 6, 5, 4, 3, 2, 1],
        kpiSnapshots := [example_kpi 1 1 (Some 5) 200 7, example_kpi 2 2 (Some 6) 100 9],
        projects_id_seq := 7, events_id_seq := 11, kpi_snapshots_id_seq := 2\<rparr>"

section \<open>KPI snapshot writes\<close>

text \<open>
  The constraint \<^verbatim>\<open>uniq_org_project_key_period\<close> of the schema, as SQL enforces a
  \<^verbatim>\<open>UNIQUE\<close> constraint: two rows conflict when they agree on the four columns and none of
  them is null, so rows with a null \<^verbatim>\<open>project_id\<close> never conflict.
\<close>

definition kpi_tuple :: "kpiSnapshot \<Rightarrow> int \<times> int option \<times> string \<times> int" where
  "kpi_tuple k = (k_organizationId k, k_projectId k, k_key k, k_periodStart k)"

definition uniq_org_project_key_period :: "kpiSnapshot list \<Rightarrow> bool" where
  "uniq_org_project_key_period rows =
     distinct (map kpi_tuple (filter (\<lambda>k. k_projectId k \<noteq> None) rows))"

text \<open>
  The values of one snapshot write: the four columns of the tuple and the computed
  columns.
\<close>

record kpiValues =
  kv_organizationId :: int
  kv_projectId :: "int option"
  kv_key :: string
  kv_periodStart :: int
  kv_periodEnd :: int
  kv_value :: int
  kv_metadata :: "string option"

definition kv_tuple :: "kpiValues \<Rightarrow> int \<times> int option \<times> string \<times> int" where
  "kv_tuple v = (kv_organizationId v, kv_projectId v, kv_key v, kv_periodStart v)"

text \<open>
  Modelled from the spec: the key of a KPI snapshot. The specification: a snapshot
  "belongs to one organization, optionally one project (null = org-level aggregate);
  uniquely keyed by (organization, project, metric key, period start)". Missing under
  src/: any code that states or checks this key beyond the SQL constraint above.
\<close>

definition spec_kpi_keyed_uniquely :: "kpiSnapshot list \<Rightarrow> bool" where
  "spec_kpi_keyed_uniquely rows = distinct (map kpi_tuple rows)"

text \<open>
  Modelled from the spec: the writer of KPI snapshots. No function under src/ writes the
  table \<^verbatim>\<open>kpi_snapshots\<close> (the worker is a stub); the schema declares the table and its
  constraint only. The specification: "recomputation must upsert/replace, never
  duplicate" and "writers must upsert (insert-or-replace) rather than blind-insert". The
  write replaces the values of the row of the same tuple, or inserts a row when there is
  none.
\<close>

definition spec_upsertKpiSnapshot :: "database \<Rightarrow> kpiValues \<Rightarrow> int \<Rightarrow> database" where
  "spec_upsertKpiSnapshot db v now =
     (if list_ex (\<lambda>k. kpi_tuple k = kv_tuple v) (kpiSnapshots db)
      then db\<lparr>kpiSnapshots :=
                map (\<lambda>k. if kpi_tuple k = kv_tuple v
                          then k\<lparr>k_periodEnd := kv_periodEnd v, k_value := kv_value v,
                                 k_metadata := kv_metadata v, k_updatedAt := now\<rparr>
                          else k)
                  (kpiSnapshots db)\<rparr>
      else db\<lparr>kpiSnapshots :=
                kpiSnapshots db @
                  [\<lparr>k_id = kpi_snapshots_id_seq db + 1,
                    k_organizationId = kv_organizationId v,
                    k_projectId = kv_projectId v,
                    k_key = kv_key v,
                    k_periodStart = kv_periodStart v,
                    k_periodEnd = kv_periodEnd v,
                    k_value = kv_value v,
                    k_metadata = kv_metadata v,
                    k_createdAt = now,
                    k_updatedAt = now\<rparr>],
              kpi_snapshots_id_seq := kpi_snapshots_id_seq db + 1\<rparr>)"

text \<open>
  The scenario of the specification: organization 1, project 5, key
  \<^verbatim>\<open>daily_page_views\<close>, period start 2024-01-01 (1704067200000 ms), written with the value
  \<open>v\<close>.
\<close>

definition scenario_kpiValues :: "int \<Rightarrow> kpiValues" where
  "scenario_kpiValues v =
     \<lparr>kv_organizationId = 1, kv_projectId = Some 5, kv_key = ''daily_page_views'',
      kv_periodStart = 1704067200000, kv_periodEnd = 1704153600000, kv_value = v,
      kv_metadata = None\<rparr>"


section \<open>Role policy: theorems\<close>

lemma map_of_ROLES_key: "map_of ROLES (role_key r) = Some (spec_rank r)"
  by (cases r) (simp_all add: ROLES_def)

lemma spec_rank_inj: "spec_rank a = spec_rank b \<Longrightarrow> a = b"
  by (cases a; cases b) simp_all

lemma hasMinimumRole_keys:
  "hasMinimumRole (role_key a) (role_key r) = (spec_rank r \<le> spec_rank a)"
  by (simp add: hasMinimumRole_def map_of_ROLES_key)

lemma map_of_roleHierarchy_key: "map_of roleHierarchy (role_key r) = Some (spec_rank r)"
  by (cases r) (simp_all add: roleHierarchy_def)

lemma hasOrgAccess_keys:
  assumes "getUserOrgMembership session org = Some m" and "so_role m = role_key a"
  shows "hasOrgAccess session org r = (spec_rank r \<le> spec_rank a)"
  using assms by (simp add: hasOrgAccess_def map_of_roleHierarchy_key)

text \<open>
  C4. For all roles \<open>actual\<close> and \<open>required\<close> among member, admin and owner,
  \<^verbatim>\<open>hasMinimumRole\<close> is true exactly when the rank of \<open>actual\<close> is at least the rank of
  \<open>required\<close> in the order member(1) < admin(2) < owner(3), the ranks being the entries of
  \<^verbatim>\<open>ROLES\<close>. Hence for \<open>r1 \<le> r2\<close> the check of \<open>r2\<close> against \<open>r1\<close> succeeds, and the check of
  \<open>r1\<close> against \<open>r2\<close> succeeds only when \<open>r1 = r2\<close>. The level comparison of
  \<^verbatim>\<open>hasOrgAccess\<close> decides the same for a session membership with a role of the three.
\<close>

theorem hasMinimumRole_rank_order:
  "(hasMinimumRole (role_key actual) (role_key required)
      \<longleftrightarrow> spec_rank required \<le> spec_rank actual)
   \<and> map_of ROLES (role_key actual) = Some (spec_rank actual)
   \<and> (spec_rank r1 \<le> spec_rank r2 \<longrightarrow> hasMinimumRole (role_key r2) (role_key r1))
   \<and> (spec_rank r1 \<le> spec_rank r2 \<longrightarrow> hasMinimumRole (role_key r1) (role_key r2) \<longrightarrow> r1 = r2)
   \<and> (getUserOrgMembership session org = Some m \<longrightarrow> so_role m = role_key actual \<longrightarrow>
        hasOrgAccess session org required = hasMinimumRole (role_key actual) (role_key required))"
proof (intro conjI impI)
  show "hasMinimumRole (role_key actual) (role_key required)
          \<longleftrightarrow> spec_rank required \<le> spec_rank actual"
    by (rule hasMinimumRole_keys)
  show "map_of ROLES (role_key actual) = Some (spec_rank actual)"
    by (rule map_of_ROLES_key)
next
  assume "spec_rank r1 \<le> spec_rank r2"
  then show "hasMinimumRole (role_key r2) (role_key r1)"
    by (simp add: hasMinimumRole_keys)
next
  assume le: "spec_rank r1 \<le> spec_rank r2" and ok: "hasMinimumRole (role_key r1) (role_key r2)"
  from ok have "spec_rank r2 \<le> spec_rank r1"
    by (simp add: hasMinimumRole_keys)
  with le have "spec_rank r1 = spec_rank r2"
    by simp
  then show "r1 = r2"
    by (rule spec_rank_inj)
next
  assume "getUserOrgMembership session org = Some m" and "so_role m = role_key actual"
  then show "hasOrgAccess session org required = hasMinimumRole (role_key actual) (role_key required)"
    by (simp add: hasOrgAccess_keys hasMinimumRole_keys)
qed

theorem hasMinimumRole_rank_order_witness:
  "hasMinimumRole ''owner'' ''member'' \<and> \<not> hasMinimumRole ''member'' ''owner''
   \<and> hasMinimumRole ''admin'' ''admin''
   \<and> hasOrgAccess
        (Some \<lparr>su_id = Some ''7'', su_email = Some ''a@b.c'',
               su_organizations =
                 Some [\<lparr>so_id = 1, so_name = ''Org'', so_slug = ''org'', so_role = ''owner''\<rparr>]\<rparr>)
        1 Member"
proof -
  let ?m = "\<lparr>so_id = 1, so_name = ''Org'', so_slug = ''org'', so_role = ''owner''\<rparr>"
  let ?s = "Some \<lparr>su_id = Some ''7'', su_email = Some ''a@b.c'', su_organizations = Some [?m]\<rparr>"
  have mem: "getUserOrgMembership ?s 1 = Some ?m"
    by (simp add: getUserOrgMembership_def)
  have key: "so_role ?m = role_key Owner"
    by simp
  have le: "spec_rank Member \<le> spec_rank Owner"
    by simp
  note t = hasMinimumRole_rank_order [of Owner Member Member Owner ?s 1 ?m]
  from t le have a: "hasMinimumRole (role_key Owner) (role_key Member)"
    by blast
  from t mem key a have b: "hasOrgAccess ?s 1 Member"
    by blast
  have c: "\<not> hasMinimumRole (role_key Member) (role_key Owner)"
    using hasMinimumRole_rank_order [of Member Owner Member Owner ?s 1 ?m] by simp
  have d: "hasMinimumRole (role_key Admin) (role_key Admin)"
    using hasMinimumRole_rank_order [of Admin Admin Member Owner ?s 1 ?m] by simp
  from a b c d show ?thesis
    by simp
qed


section \<open>Context extraction: theorems\<close>

lemmas parseInt_unfold =
  parseInt_def isWhiteSpace_def isRadixDigit_def digitValue_def digitsValue_def hasHexPrefix_def
  number_of_int_def

lemma isDecimalDigit_props:
  "isDecimalDigit c \<Longrightarrow>
     isRadixDigit 10 c \<and> \<not> isWhiteSpace c \<and> c \<noteq> CHR ''+'' \<and> c \<noteq> CHR ''-''"
  unfolding isDecimalDigit_def
  by (auto simp: isRadixDigit_def digitValue_def isWhiteSpace_def)

lemma digitsValue_fold_nonneg:
  "0 \<le> a \<Longrightarrow> 0 \<le> foldl (\<lambda>a c. a * int R + int (the (digitValue c))) a ds"
  by (induction ds arbitrary: a) simp_all

lemma digitsValue_nonneg: "0 \<le> digitsValue R ds"
  by (simp add: digitsValue_def digitsValue_fold_nonneg)

lemma parseInt_decimal_digits:
  assumes "ds \<noteq> []" and "\<forall>c\<in>set ds. isDecimalDigit c"
  shows "parseInt ds 10 = number_of_int (digitsValue 10 ds)"
proof -
  from assms(1) obtain c cs where ds: "ds = c # cs"
    by (cases ds) auto
  with assms(2) have c: "isDecimalDigit c"
    by simp
  have ws: "dropWhile isWhiteSpace ds = ds"
    using isDecimalDigit_props [OF c] by (simp add: ds)
  have tw: "takeWhile (isRadixDigit 10) ds = ds"
    using assms(2) isDecimalDigit_props by (simp add: takeWhile_eq_all_conv)
  have sg: "hd ds \<noteq> CHR ''+''" "hd ds \<noteq> CHR ''-''"
    using isDecimalDigit_props [OF c] by (simp_all add: ds)
  show ?thesis
    using assms(1) by (simp add: parseInt_def ws tw sg)
qed

lemma number_of_int_nonneg:
  assumes "0 \<le> n"
  shows "number_of_int n = PosInfinity \<or> (\<exists>m. number_of_int n = Num m \<and> 0 \<le> m)"
proof -
  from assms have a: "\<bar>n\<bar> = n" and s: "sgn n = (if n = 0 then 0 else 1)"
    by (simp_all add: sgn_if)
  have q: "0 \<le> n div 2 ^ e" for e :: nat
    using assms by (simp add: pos_imp_zdiv_nonneg_iff)
  have q1: "0 \<le> (n div 2 ^ e + 1) * 2 ^ e" for e :: nat
    using q [of e] by simp
  have q0: "0 \<le> n div 2 ^ e * 2 ^ e" for e :: nat
    using q [of e] by simp
  show ?thesis
    unfolding number_of_int_def Let_def a s
    using assms q0 q1 by (simp del: power_numeral)
qed

lemma match_api_org_digits:
  "match_api_org s = Some d \<Longrightarrow> d \<noteq> [] \<and> (\<forall>c\<in>set d. isDecimalDigit c)"
proof (induction s)
  case Nil
  then show ?case by simp
next
  case (Cons c cs)
  then show ?case
    by (auto simp: Let_def split: if_splits dest: set_takeWhileD)
qed

lemma match_api_org_occurs:
  "match_api_org s = Some d \<Longrightarrow>
     \<exists>pre post. s = pre @ ''/api/org/'' @ d @ post \<and> (post = [] \<or> \<not> isDecimalDigit (hd post))"
proof (induction s)
  case Nil
  then show ?case by simp
next
  case (Cons c cs)
  show ?case
  proof (cases "take 9 (c # cs) = ''/api/org/'' \<and> takeWhile isDecimalDigit (drop 9 (c # cs)) \<noteq> []")
    case True
    with Cons.prems have d: "d = takeWhile isDecimalDigit (drop 9 (c # cs))"
      by (simp add: Let_def)
    let ?post = "dropWhile isDecimalDigit (drop 9 (c # cs))"
    have "c # cs = take 9 (c # cs) @ drop 9 (c # cs)"
      by (simp only: append_take_drop_id)
    also have "\<dots> = ''/api/org/'' @ d @ ?post"
      using True d by (simp only: takeWhile_dropWhile_id)
    finally have "c # cs = [] @ ''/api/org/'' @ d @ ?post"
      by simp
    moreover have "?post = [] \<or> \<not> isDecimalDigit (hd ?post)"
      by (metis hd_dropWhile)
    ultimately show ?thesis
      by blast
  next
    case False
    with Cons.prems have "match_api_org cs = Some d"
      by (auto simp: Let_def split: if_splits)
    from Cons.IH [OF this] obtain pre post where
      eq: "cs = pre @ ''/api/org/'' @ d @ post" and post: "post = [] \<or> \<not> isDecimalDigit (hd post)"
      by blast
    from eq have "c # cs = (c # pre) @ ''/api/org/'' @ d @ post"
      by simp
    with post show ?thesis
      by blast
  qed
qed

lemma match_api_org_leftmost:
  "match_api_org s = Some d \<Longrightarrow>
     \<exists>i. take 9 (drop i s) = ''/api/org/'' \<and> d = takeWhile isDecimalDigit (drop (i + 9) s)
        \<and> (\<forall>j<i. \<not> (take 9 (drop j s) = ''/api/org/''
                     \<and> takeWhile isDecimalDigit (drop (j + 9) s) \<noteq> []))"
proof (induction s)
  case Nil
  then show ?case by simp
next
  case (Cons c cs)
  show ?case
  proof (cases "take 9 (c # cs) = ''/api/org/'' \<and> takeWhile isDecimalDigit (drop 9 (c # cs)) \<noteq> []")
    case True
    with Cons.prems have "d = takeWhile isDecimalDigit (drop 9 (c # cs))"
      by (simp add: Let_def)
    with True have "take 9 (drop 0 (c # cs)) = ''/api/org/''
        \<and> d = takeWhile isDecimalDigit (drop (0 + 9) (c # cs))
        \<and> (\<forall>j<0. \<not> (take 9 (drop j (c # cs)) = ''/api/org/''
                     \<and> takeWhile isDecimalDigit (drop (j + 9) (c # cs)) \<noteq> []))"
      by (simp only: drop_0 add_0 not_less_zero simp_thms)
    then show ?thesis
      by blast
  next
    case False
    with Cons.prems have "match_api_org cs = Some d"
      by (auto simp: Let_def split: if_splits)
    from Cons.IH [OF this] obtain i where
      i: "take 9 (drop i cs) = ''/api/org/''" "d = takeWhile isDecimalDigit (drop (i + 9) cs)"
      and least: "\<forall>j<i. \<not> (take 9 (drop j cs) = ''/api/org/''
                     \<and> takeWhile isDecimalDigit (drop (j + 9) cs) \<noteq> [])"
      by blast
    have l: "\<not> (take 9 (drop j (c # cs)) = ''/api/org/''
              \<and> takeWhile isDecimalDigit (drop (j + 9) (c # cs)) \<noteq> [])" if "j < Suc i" for j
    proof (cases j)
      case 0
      from False show ?thesis
        by (simp only: 0 drop_0 add_0 not_False_eq_True simp_thms)
    next
      case (Suc j')
      with that have "j' < i"
        by simp
      with least have "\<not> (take 9 (drop j' cs) = ''/api/org/''
                     \<and> takeWhile isDecimalDigit (drop (j' + 9) cs) \<noteq> [])"
        by blast
      then show ?thesis
        by (simp only: Suc drop_Suc_Cons add_Suc simp_thms)
    qed
    from i l have "take 9 (drop (Suc i) (c # cs)) = ''/api/org/''
        \<and> d = takeWhile isDecimalDigit (drop (Suc i + 9) (c # cs))
        \<and> (\<forall>j<Suc i. \<not> (take 9 (drop j (c # cs)) = ''/api/org/''
                     \<and> takeWhile isDecimalDigit (drop (j + 9) (c # cs)) \<noteq> []))"
      by (simp only: drop_Suc_Cons add_Suc simp_thms) blast
    then show ?thesis
      by blast
  qed
qed
lemma match_api_org_found:
  assumes "isDecimalDigit c"
  shows "match_api_org (pre @ ''/api/org/'' @ c # rest) \<noteq> None"
proof (induction pre)
  case Nil
  from assms show ?case
    by (simp add: Let_def)
next
  case (Cons a pre)
  then show ?case
    by (simp add: Let_def)
qed

lemma match_api_org_None_iff:
  "match_api_org s = None \<longleftrightarrow>
     \<not> (\<exists>pre c rest. s = pre @ ''/api/org/'' @ c # rest \<and> isDecimalDigit c)"
proof
  assume none: "match_api_org s = None"
  show "\<not> (\<exists>pre c rest. s = pre @ ''/api/org/'' @ c # rest \<and> isDecimalDigit c)"
  proof
    assume "\<exists>pre c rest. s = pre @ ''/api/org/'' @ c # rest \<and> isDecimalDigit c"
    then obtain pre c rest where s: "s = pre @ ''/api/org/'' @ c # rest" and c: "isDecimalDigit c"
      by blast
    from match_api_org_found [OF c, of pre rest] none show False
      by (simp only: s)
  qed
next
  assume no: "\<not> (\<exists>pre c rest. s = pre @ ''/api/org/'' @ c # rest \<and> isDecimalDigit c)"
  show "match_api_org s = None"
  proof (rule ccontr)
    assume "match_api_org s \<noteq> None"
    then obtain d where d: "match_api_org s = Some d"
      by auto
    from match_api_org_digits [OF d] obtain c ds where dd: "d = c # ds" and c: "isDecimalDigit c"
      by (cases d) auto
    from match_api_org_occurs [OF d] obtain pre post where
      "s = pre @ ''/api/org/'' @ d @ post"
      by blast
    with dd have "s = pre @ ''/api/org/'' @ c # (ds @ post)"
      by simp
    with c no show False
      by blast
  qed
qed
lemma match_api_org_value:
  assumes "match_api_org s = Some d"
  shows "parseInt d 10 = PosInfinity \<or> (\<exists>n. parseInt d 10 = Num n \<and> 0 \<le> n)"
proof -
  from match_api_org_digits [OF assms]
  have "parseInt d 10 = number_of_int (digitsValue 10 d)"
    by (simp add: parseInt_decimal_digits)
  with number_of_int_nonneg [OF digitsValue_nonneg, of 10 d] show ?thesis
    by simp
qed

lemma getOrgIdFromRequest_query:
  assumes "searchParams_get (req_searchParams req) ''orgId'' = Some q" and "q \<noteq> []"
  shows "getOrgIdFromRequest req = Some (parseInt q 10)"
  using assms by (simp add: getOrgIdFromRequest_def)

lemma getOrgIdFromRequest_header:
  assumes "\<not> truthy_str (searchParams_get (req_searchParams req) ''orgId'')"
    and "headers_get (req_headers req) ''x-org-id'' = Some h" and "h \<noteq> []"
  shows "getOrgIdFromRequest req = Some (parseInt h 10)"
  using assms by (simp add: getOrgIdFromRequest_def)

lemma getOrgIdFromRequest_path:
  assumes "\<not> truthy_str (searchParams_get (req_searchParams req) ''orgId'')"
    and "\<not> truthy_str (headers_get (req_headers req) ''x-org-id'')"
  shows "getOrgIdFromRequest req = map_option (\<lambda>g. parseInt g 10) (match_api_org (req_pathname req))"
  using assms by (simp add: getOrgIdFromRequest_def split: option.splits)

lemma truthy_str_candidates:
  "filter (\<lambda>c. c \<noteq> []) (case x of None \<Rightarrow> [] | Some c \<Rightarrow> [c]) =
     (if truthy_str x then [the x] else [])"
  by (cases x) simp_all

lemma getOrgIdFromRequest_candidates:
  "getOrgIdFromRequest req =
     (case orgIdCandidates req of [] \<Rightarrow> None | c # _ \<Rightarrow> Some (parseInt c 10))"
proof (cases "match_api_org (req_pathname req)")
  case None
  then show ?thesis
    by (simp add: getOrgIdFromRequest_def orgIdCandidates_def truthy_str_candidates)
next
  case (Some d)
  with match_api_org_digits have "d \<noteq> []"
    by blast
  with Some show ?thesis
    by (simp add: getOrgIdFromRequest_def orgIdCandidates_def truthy_str_candidates)
qed

lemma orgMiddleware_falsy_orgId:
  assumes "getOrgIdFromRequest req = Some v" and "v = NaN \<or> v = Num 0"
  shows "orgMiddleware token req = Next"
  using assms by (auto simp: orgMiddleware_def split: option.splits)


text \<open>
  C6 as the specification states it: the header is read before the query parameter, so a
  request with header \<^verbatim>\<open>x-org-id: 42\<close> and query parameter \<^verbatim>\<open>orgId=99\<close> gives 42. The code
  reads the query parameter first and gives 99.
\<close>

theorem getOrgIdFromRequest_header_first_counterexample:
  "getOrgIdFromRequest
     \<lparr>req_searchParams = [(''orgId'', ''99'')],
      req_headers = [(''x-org-id'', ''42'')],
      req_pathname = ''/api/projects''\<rparr> \<noteq> Some (Num 42)"
  by (simp add: getOrgIdFromRequest_def searchParams_get_def parseInt_unfold)

text \<open>
  C6, amended. \<^verbatim>\<open>getOrgIdFromRequest\<close> tries the sources in the fixed order query
  parameter \<^verbatim>\<open>orgId\<close>, then header \<^verbatim>\<open>x-org-id\<close>, then the leftmost \<^verbatim>\<open>/api/org/<digits>\<close> in
  the path, and returns \<^verbatim>\<open>parseInt(c, 10)\<close> of the first candidate \<open>c\<close> that is present
  and not empty: a non-empty query parameter decides whatever the header and the path
  are, and a non-empty header decides whatever the path is when the query parameter is
  absent or empty.
\<close>

theorem getOrgIdFromRequest_priority:
  "(searchParams_get (req_searchParams req) ''orgId'' = Some q \<and> q \<noteq> [] \<longrightarrow>
      getOrgIdFromRequest req = Some (parseInt q 10))
   \<and> (\<not> truthy_str (searchParams_get (req_searchParams req) ''orgId'')
        \<and> headers_get (req_headers req) ''x-org-id'' = Some h \<and> h \<noteq> [] \<longrightarrow>
      getOrgIdFromRequest req = Some (parseInt h 10))
   \<and> (\<not> truthy_str (searchParams_get (req_searchParams req) ''orgId'')
        \<and> \<not> truthy_str (headers_get (req_headers req) ''x-org-id'')
        \<and> match_api_org (req_pathname req) = Some g \<longrightarrow>
      getOrgIdFromRequest req = Some (parseInt g 10)
      \<and> (\<exists>pre post. req_pathname req = pre @ ''/api/org/'' @ g @ post
            \<and> (post = [] \<or> \<not> isDecimalDigit (hd post)))
      \<and> g \<noteq> [] \<and> (\<forall>c\<in>set g. isDecimalDigit c)
      \<and> (\<exists>i. take 9 (drop i (req_pathname req)) = ''/api/org/''
            \<and> g = takeWhile isDecimalDigit (drop (i + 9) (req_pathname req))
            \<and> (\<forall>j<i. \<not> (take 9 (drop j (req_pathname req)) = ''/api/org/''
                  \<and> takeWhile isDecimalDigit (drop (j + 9) (req_pathname req)) \<noteq> []))))
   \<and> (\<not> truthy_str (searchParams_get (req_searchParams req) ''orgId'')
        \<and> \<not> truthy_str (headers_get (req_headers req) ''x-org-id'')
        \<and> match_api_org (req_pathname req) = None \<longrightarrow>
      getOrgIdFromRequest req = None)
   \<and> (match_api_org (req_pathname req) = None \<longleftrightarrow>
        \<not> (\<exists>pre c rest. req_pathname req = pre @ ''/api/org/'' @ c # rest \<and> isDecimalDigit c))"
proof (intro conjI impI)
  assume "searchParams_get (req_searchParams req) ''orgId'' = Some q \<and> q \<noteq> []"
  then show "getOrgIdFromRequest req = Some (parseInt q 10)"
    by (simp add: getOrgIdFromRequest_query)
next
  assume "\<not> truthy_str (searchParams_get (req_searchParams req) ''orgId'')
            \<and> headers_get (req_headers req) ''x-org-id'' = Some h \<and> h \<noteq> []"
  then show "getOrgIdFromRequest req = Some (parseInt h 10)"
    by (simp add: getOrgIdFromRequest_header)
next
  assume a: "\<not> truthy_str (searchParams_get (req_searchParams req) ''orgId'')
            \<and> \<not> truthy_str (headers_get (req_headers req) ''x-org-id'')
            \<and> match_api_org (req_pathname req) = Some g"
  then show "getOrgIdFromRequest req = Some (parseInt g 10)"
    by (simp add: getOrgIdFromRequest_path)
  from a have m: "match_api_org (req_pathname req) = Some g"
    by simp
  from match_api_org_occurs [OF m]
  show "\<exists>pre post. req_pathname req = pre @ ''/api/org/'' @ g @ post
          \<and> (post = [] \<or> \<not> isDecimalDigit (hd post))" .
  from match_api_org_digits [OF m] show "g \<noteq> []" and "\<forall>c\<in>set g. isDecimalDigit c"
    by simp_all
  from match_api_org_leftmost [OF m]
  show "\<exists>i. take 9 (drop i (req_pathname req)) = ''/api/org/''
            \<and> g = takeWhile isDecimalDigit (drop (i + 9) (req_pathname req))
            \<and> (\<forall>j<i. \<not> (take 9 (drop j (req_pathname req)) = ''/api/org/''
                  \<and> takeWhile isDecimalDigit (drop (j + 9) (req_pathname req)) \<noteq> []))" .
next
  assume "\<not> truthy_str (searchParams_get (req_searchParams req) ''orgId'')
            \<and> \<not> truthy_str (headers_get (req_headers req) ''x-org-id'')
            \<and> match_api_org (req_pathname req) = None"
  then show "getOrgIdFromRequest req = None"
    by (simp add: getOrgIdFromRequest_path)
next
  show "match_api_org (req_pathname req) = None \<longleftrightarrow>
        \<not> (\<exists>pre c rest. req_pathname req = pre @ ''/api/org/'' @ c # rest \<and> isDecimalDigit c)"
    by (rule match_api_org_None_iff)
qed

theorem getOrgIdFromRequest_priority_witness:
  "getOrgIdFromRequest
     \<lparr>req_searchParams = [(''orgId'', ''99'')],
      req_headers = [(''x-org-id'', ''42'')],
      req_pathname = ''/api/org/7/projects''\<rparr> = Some (Num 99)
   \<and> getOrgIdFromRequest
     \<lparr>req_searchParams = [(''page'', ''2'')],
      req_headers = [(''x-org-id'', ''42'')],
      req_pathname = ''/api/org/7/projects''\<rparr> = Some (Num 42)
   \<and> getOrgIdFromRequest
     \<lparr>req_searchParams = [(''orgId'', '''')],
      req_headers = [],
      req_pathname = ''/api/org/7/projects''\<rparr> = Some (Num 7)
   \<and> getOrgIdFromRequest
     \<lparr>req_searchParams = [],
      req_headers = [],
      req_pathname = ''/org/7/projects''\<rparr> = None"
proof -
  let ?r1 = "\<lparr>req_searchParams = [(''orgId'', ''99'')], req_headers = [(''x-org-id'', ''42'')],
              req_pathname = ''/api/org/7/projects''\<rparr>"
  let ?r2 = "\<lparr>req_searchParams = [(''page'', ''2'')], req_headers = [(''x-org-id'', ''42'')],
              req_pathname = ''/api/org/7/projects''\<rparr>"
  let ?r3 = "\<lparr>req_searchParams = [(''orgId'', '''')], req_headers = [],
              req_pathname = ''/api/org/7/projects''\<rparr>"
  let ?r4 = "\<lparr>req_searchParams = [], req_headers = [], req_pathname = ''/org/7/projects''\<rparr>"
  have p99: "parseInt ''99'' 10 = Num 99" and p42: "parseInt ''42'' 10 = Num 42"
    and p7: "parseInt ''7'' 10 = Num 7"
    by (simp_all add: parseInt_unfold)
  have "getOrgIdFromRequest ?r1 = Some (Num 99)"
    using getOrgIdFromRequest_priority [of ?r1 "''99''" "''42''" "''7''"]
    by (simp add: searchParams_get_def p99)
  moreover have "getOrgIdFromRequest ?r2 = Some (Num 42)"
    using getOrgIdFromRequest_priority [of ?r2 "''99''" "''42''" "''7''"]
    by (simp add: searchParams_get_def headers_get_def p42)
  moreover have "getOrgIdFromRequest ?r3 = Some (Num 7)"
    using getOrgIdFromRequest_priority [of ?r3 "''''" "''''" "''7''"]
    by (simp add: searchParams_get_def headers_get_def isDecimalDigit_def p7)
  moreover have "getOrgIdFromRequest ?r4 = None"
    using getOrgIdFromRequest_priority [of ?r4 "''''" "''''" "''''"]
    by (simp add: searchParams_get_def headers_get_def isDecimalDigit_def)
  ultimately show ?thesis
    by simp
qed

text \<open>
  \<^verbatim>\<open>parseInt\<close> gives a double: an integer above \<open>2^53\<close> is rounded, and a path segment of
  310 digits gives \<^verbatim>\<open>Infinity\<close>, which is not a valid organization id.
\<close>

lemma parseInt_rounds_to_double:
  "parseInt ''9007199254740993'' 10 = Num 9007199254740992
   \<and> parseInt ''9007199254740992'' 10 = Num 9007199254740992
   \<and> parseInt ''4294967297'' 10 = Num 4294967297"
  by code_simp

lemma getOrgIdFromRequest_path_infinity:
  "getOrgIdFromRequest
     \<lparr>req_searchParams = [], req_headers = [],
      req_pathname = ''/api/org/'' @ replicate 310 (CHR ''9'')\<rparr> = Some PosInfinity
   \<and> \<not> isValidOrgId PosInfinity
   \<and> parseOrgId (Some (replicate 310 (CHR ''9''))) = None"
  by code_simp

text \<open>
  C7 as the specification states it: the result is a valid positive integer or none.
  The code returns what \<^verbatim>\<open>parseInt\<close> gives without validating it: \<^verbatim>\<open>NaN\<close> for
  \<^verbatim>\<open>?orgId=abc\<close>, zero for \<^verbatim>\<open>?orgId=0\<close> and a negative number for the header
  \<^verbatim>\<open>x-org-id: -5\<close>.
\<close>

theorem getOrgIdFromRequest_positive_counterexample:
  "getOrgIdFromRequest
     \<lparr>req_searchParams = [(''orgId'', ''abc'')], req_headers = [],
      req_pathname = ''/api/projects''\<rparr> = Some NaN
   \<and> getOrgIdFromRequest
     \<lparr>req_searchParams = [(''orgId'', ''0'')], req_headers = [],
      req_pathname = ''/api/projects''\<rparr> = Some (Num 0)
   \<and> getOrgIdFromRequest
     \<lparr>req_searchParams = [], req_headers = [(''x-org-id'', ''-5'')],
      req_pathname = ''/api/projects''\<rparr> = Some (Num (- 5))"
  by (simp add: getOrgIdFromRequest_def searchParams_get_def headers_get_def parseInt_unfold)

text \<open>
  C7, amended. \<^verbatim>\<open>getOrgIdFromRequest\<close> returns none exactly when no source yields a
  candidate that is present and not empty; otherwise it returns \<^verbatim>\<open>parseInt(c, 10)\<close> of
  the first such candidate \<open>c\<close>, not validated, so the result is a valid positive integer
  exactly when \<^verbatim>\<open>parseOrgId\<close> accepts \<open>c\<close> with that value.
\<close>

theorem getOrgIdFromRequest_unvalidated:
  "getOrgIdFromRequest req =
     (case orgIdCandidates req of [] \<Rightarrow> None | c # _ \<Rightarrow> Some (parseInt c 10))
   \<and> (getOrgIdFromRequest req = None \<longleftrightarrow> orgIdCandidates req = [])
   \<and> (\<forall>c cs. orgIdCandidates req = c # cs \<longrightarrow>
         (isValidOrgId (parseInt c 10) \<longleftrightarrow> parseOrgId (Some c) = getOrgIdFromRequest req))"
proof (intro conjI impI allI)
  show c: "getOrgIdFromRequest req =
     (case orgIdCandidates req of [] \<Rightarrow> None | c # _ \<Rightarrow> Some (parseInt c 10))"
    by (rule getOrgIdFromRequest_candidates)
  show "getOrgIdFromRequest req = None \<longleftrightarrow> orgIdCandidates req = []"
    by (simp add: c split: list.splits)
next
  fix c cs
  assume cand: "orgIdCandidates req = c # cs"
  then have "c \<in> set (orgIdCandidates req)"
    by simp
  then have ne: "c \<noteq> []"
    by (auto simp: orgIdCandidates_def)
  from cand have r: "getOrgIdFromRequest req = Some (parseInt c 10)"
    by (simp add: getOrgIdFromRequest_candidates)
  show "isValidOrgId (parseInt c 10) \<longleftrightarrow> parseOrgId (Some c) = getOrgIdFromRequest req"
    using ne by (simp add: r parseOrgId_def Let_def)
qed

theorem getOrgIdFromRequest_unvalidated_witness:
  "orgIdCandidates
     \<lparr>req_searchParams = [(''orgId'', ''abc'')], req_headers = [(''x-org-id'', ''42'')],
      req_pathname = ''/api/org/7''\<rparr> = [''abc'', ''42'', ''7'']
   \<and> getOrgIdFromRequest
     \<lparr>req_searchParams = [(''orgId'', ''abc'')], req_headers = [(''x-org-id'', ''42'')],
      req_pathname = ''/api/org/7''\<rparr> = Some NaN
   \<and> parseOrgId (Some ''abc'') = None
   \<and> getOrgIdFromRequest
     \<lparr>req_searchParams = [], req_headers = [], req_pathname = ''/api/org/0''\<rparr> = Some (Num 0)"
proof -
  let ?r1 = "\<lparr>req_searchParams = [(''orgId'', ''abc'')], req_headers = [(''x-org-id'', ''42'')],
              req_pathname = ''/api/org/7''\<rparr>"
  let ?r2 = "\<lparr>req_searchParams = [], req_headers = [], req_pathname = ''/api/org/0''\<rparr>"
  have c1: "orgIdCandidates ?r1 = [''abc'', ''42'', ''7'']"
    by (simp add: orgIdCandidates_def searchParams_get_def headers_get_def isDecimalDigit_def)
  have c2: "orgIdCandidates ?r2 = [''0'']"
    by (simp add: orgIdCandidates_def searchParams_get_def headers_get_def isDecimalDigit_def)
  have pabc: "parseInt ''abc'' 10 = NaN" and p0: "parseInt ''0'' 10 = Num 0"
    by (simp_all add: parseInt_unfold)
  have g1: "getOrgIdFromRequest ?r1 = Some NaN"
    using getOrgIdFromRequest_unvalidated [of ?r1] by (simp add: c1 pabc)
  have "\<not> isValidOrgId (parseInt ''abc'' 10)"
    by (simp add: pabc isValidOrgId_def)
  with getOrgIdFromRequest_unvalidated [of ?r1] c1 g1 have v1: "parseOrgId (Some ''abc'') = None"
    by (simp add: parseOrgId_def pabc isValidOrgId_def)
  have g2: "getOrgIdFromRequest ?r2 = Some (Num 0)"
    using getOrgIdFromRequest_unvalidated [of ?r2] by (simp add: c2 p0)
  from c1 g1 v1 g2 show ?thesis
    by simp
qed


section \<open>Access guard: theorems\<close>

lemma sql_where_two: "sql_where [c1, c2] rows = filter (\<lambda>r. c1 r \<and> c2 r) rows"
  by (simp add: sql_where_def)

lemma sql_where_one: "sql_where [c1] rows = filter c1 rows"
  by (simp add: sql_where_def)

lemma joined_roles_Cons:
  "map (\<lambda>(m, org). f m) (filter (\<lambda>(m, org). P m) (sql_innerJoin (m # ms) orgs on)) =
     (if P m then map (\<lambda>_. f m) (filter (on m) orgs) else [])
     @ map (\<lambda>(m, org). f m) (filter (\<lambda>(m, org). P m) (sql_innerJoin ms orgs on))"
  by (simp add: sql_innerJoin_def filter_map comp_def)

lemma joined_roles_first:
  assumes "list_all (\<lambda>m. list_ex (on m) orgs) ms"
  shows "sql_limit 1 (map (\<lambda>(m, org). f m) (filter (\<lambda>(m, org). P m) (sql_innerJoin ms orgs on)))
           = (case find P ms of None \<Rightarrow> [] | Some m \<Rightarrow> [f m])"
  using assms
proof (induction ms)
  case Nil
  then show ?case by (simp add: sql_innerJoin_def sql_limit_def)
next
  case (Cons m ms)
  from Cons.prems have ex: "filter (on m) orgs \<noteq> []" and rest: "list_all (\<lambda>m. list_ex (on m) orgs) ms"
    by (auto simp: list_ex_iff filter_empty_conv)
  show ?case
  proof (cases "P m")
    case True
    from ex obtain o1 os where "filter (on m) orgs = o1 # os"
      by (cases "filter (on m) orgs") auto
    with True show ?thesis
      by (simp add: joined_roles_Cons sql_limit_def)
  next
    case False
    with Cons.IH[OF rest] show ?thesis
      by (simp add: joined_roles_Cons)
  qed
qed


lemma sql_int4_param_None: "sql_int4_param (Num n) = None \<longleftrightarrow> \<not> int4 n"
  by simp

lemma assertRole_storage:
  assumes "truthy_str (su_email user)"
    and "\<not> int4 oid \<or> sql_int4_param (parseInt_id (su_id user)) = None"
  shows "assertRole (Some user) db oid rs = Inl StorageError"
  using assms by (auto simp: assertRole_def split: option.splits)

lemma assertRole_find:
  assumes "user_organizations_organization_fk db"
    and "truthy_str (su_email user)"
    and "int4 oid" and "sql_int4_param (parseInt_id (su_id user)) = Some u"
  shows "assertRole (Some user) db oid rs =
     (case find (\<lambda>m. uo_organizationId m = oid \<and> uo_userId m = u) (userOrganizations db) of
        None \<Rightarrow> Inl NotAMember
      | Some m \<Rightarrow>
          if list_ex (\<lambda>r. hasMinimumRole (uo_role m) (role_key r)) rs then Inr (uo_role m, oid)
          else Inl (InsufficientRole rs))"
proof -
  let ?P = "\<lambda>m. uo_organizationId m = oid \<and> uo_userId m = u"
  let ?J = "sql_innerJoin (userOrganizations db) (organizations db)
              (\<lambda>m org. org_id org = uo_organizationId m)"
  have fk: "list_all (\<lambda>m. list_ex (\<lambda>org. org_id org = uo_organizationId m) (organizations db))
              (userOrganizations db)"
    using assms(1) by (simp add: user_organizations_organization_fk_def)
  have w: "sql_where [\<lambda>(m, org). uo_organizationId m = oid, \<lambda>(m, org). uo_userId m = u] ?J
           = filter (\<lambda>(m, org). ?P m) ?J"
    by (simp add: sql_where_def case_prod_unfold)
  have rows: "sql_limit 1
                (map (\<lambda>(m, org). uo_role m)
                  (sql_where
                     [\<lambda>(m, org). uo_organizationId m = oid, \<lambda>(m, org). uo_userId m = u] ?J))
              = (case find ?P (userOrganizations db) of None \<Rightarrow> [] | Some m \<Rightarrow> [uo_role m])"
    unfolding w by (rule joined_roles_first [OF fk])
  have params: "sql_int4_param (Num oid) = Some oid"
    using assms(3) by simp
  show ?thesis
    apply (simp only: assertRole_def Let_def option.case params assms(4) prod.case)
    apply (subst rows)
    using assms(2) apply (simp split: option.splits)
    done
qed

lemma uniq_user_org_same:
  assumes "uniq_user_org rows" and "m \<in> set rows" and "m' \<in> set rows"
    and "uo_userId m = uo_userId m'" and "uo_organizationId m = uo_organizationId m'"
  shows "m = m'"
proof -
  from assms(1) have "inj_on (\<lambda>m. (uo_userId m, uo_organizationId m)) (set rows)"
    by (simp add: uniq_user_org_def distinct_map)
  with assms(2-5) show ?thesis
    by (auto dest: inj_onD)
qed

lemma find_unique_membership:
  assumes "uniq_user_org rows" and "m \<in> set rows"
    and "uo_userId m = u" and "uo_organizationId m = oid"
  shows "find (\<lambda>m. uo_organizationId m = oid \<and> uo_userId m = u) rows = Some m"
proof (cases "find (\<lambda>m. uo_organizationId m = oid \<and> uo_userId m = u) rows")
  case None
  with assms(2-4) show ?thesis
    by (auto simp: find_None_iff)
next
  case (Some m')
  then have "m' \<in> set rows" and "uo_organizationId m' = oid" and "uo_userId m' = u"
    by (auto simp: find_Some_iff)
  with assms have "m = m'"
    by (auto intro: uniq_user_org_same)
  with Some show ?thesis
    by simp
qed

text \<open>
  C2 as the specification states it: for every organization id, \<^verbatim>\<open>assertRole\<close> fails
  with \<^verbatim>\<open>Forbidden: User not a member\<close> when no membership row exists. For the
  organization id 4294967297, which no row has, the membership query has a parameter out
  of the range of the column type, the storage layer rejects it, and what is thrown is the
  error of the query.
\<close>

theorem assertRole_not_a_member_counterexample:
  "assertRole scenario_session scenario_db 4294967297 [Member] = Inl StorageError
   \<and> assertRole scenario_session scenario_db 4294967297 [Member] \<noteq> Inl NotAMember
   \<and> map uo_organizationId (userOrganizations scenario_db) = [1, 2]"
  by (simp add: assertRole_def scenario_db_def scenario_session_def int4_def)

text \<open>
  C2, amended. With the foreign key and the uniqueness constraint of
  \<^verbatim>\<open>user_organizations\<close>: \<^verbatim>\<open>assertRole\<close> fails with \<^verbatim>\<open>Unauthorized\<close> exactly when no
  session with an email is established. For a session with an email it throws the error
  of the rejected query exactly when the organization id is out of the int4 range or the
  session's user id does not parse to an integer of that range. For an organization id
  \<open>oid\<close> of the range and a caller whose id parses to the user id \<open>u\<close> of the range, it fails
  with \<^verbatim>\<open>Forbidden: User not a member\<close> exactly when no membership row exists for
  \<open>(u, oid)\<close>, fails with \<^verbatim>\<open>Forbidden: Requires one of these roles\<close> exactly when the
  membership row exists and its role satisfies none of \<open>requiredRoles\<close> (any one satisfied
  role suffices), and otherwise returns the role of that row.
\<close>

theorem assertRole_outcomes:
  assumes fk: "user_organizations_organization_fk db"
    and uniq: "uniq_user_org (userOrganizations db)"
  shows "(assertRole session db oid rs = Inl Unauthorized
            \<longleftrightarrow> \<not> (\<exists>user. session = Some user \<and> truthy_str (su_email user)))
   \<and> (session = Some user \<and> truthy_str (su_email user) \<longrightarrow>
        (assertRole session db oid rs = Inl StorageError
           \<longleftrightarrow> \<not> int4 oid \<or> sql_int4_param (parseInt_id (su_id user)) = None))
   \<and> (session = Some user \<and> truthy_str (su_email user) \<and> int4 oid
        \<and> parseInt_id (su_id user) = Num u \<and> int4 u \<longrightarrow>
        (assertRole session db oid rs = Inl NotAMember
           \<longleftrightarrow> \<not> (\<exists>m\<in>set (userOrganizations db). uo_userId m = u \<and> uo_organizationId m = oid))
      \<and> (assertRole session db oid rs = Inl (InsufficientRole rs)
           \<longleftrightarrow> (\<exists>m\<in>set (userOrganizations db). uo_userId m = u \<and> uo_organizationId m = oid
                 \<and> \<not> (\<exists>r\<in>set rs. hasMinimumRole (uo_role m) (role_key r))))
      \<and> (\<forall>m\<in>set (userOrganizations db). uo_userId m = u \<and> uo_organizationId m = oid
             \<and> (\<exists>r\<in>set rs. hasMinimumRole (uo_role m) (role_key r))
           \<longrightarrow> assertRole session db oid rs = Inr (uo_role m, oid)))"
proof (intro conjI impI)
  show "assertRole session db oid rs = Inl Unauthorized
          \<longleftrightarrow> \<not> (\<exists>user. session = Some user \<and> truthy_str (su_email user))"
  proof (cases session)
    case None
    then show ?thesis
      by (simp add: assertRole_def)
  next
    case (Some user')
    show ?thesis
    proof (cases "truthy_str (su_email user')")
      case False
      with Some show ?thesis
        by (simp add: assertRole_def)
    next
      case True
      show ?thesis
      proof (cases "int4 oid \<and> sql_int4_param (parseInt_id (su_id user')) \<noteq> None")
        case False
        then have "assertRole (Some user') db oid rs = Inl StorageError"
          using assertRole_storage [OF True] by blast
        with Some True show ?thesis
          by simp
      next
        case ok: True
        then obtain u' where "sql_int4_param (parseInt_id (su_id user')) = Some u'"
          by auto
        from assertRole_find [OF fk True _ this, of oid rs] ok Some True show ?thesis
          by (simp split: option.splits)
      qed
    qed
  qed
next
  assume a: "session = Some user \<and> truthy_str (su_email user)"
  then have email: "truthy_str (su_email user)" and s: "session = Some user"
    by simp_all
  show "assertRole session db oid rs = Inl StorageError
          \<longleftrightarrow> \<not> int4 oid \<or> sql_int4_param (parseInt_id (su_id user)) = None"
  proof (cases "int4 oid \<and> sql_int4_param (parseInt_id (su_id user)) \<noteq> None")
    case False
    then have "assertRole (Some user) db oid rs = Inl StorageError"
      using assertRole_storage [OF email] by blast
    with False s show ?thesis
      by auto
  next
    case True
    then obtain u' where "sql_int4_param (parseInt_id (su_id user)) = Some u'"
      by auto
    from assertRole_find [OF fk email _ this, of oid rs] True s show ?thesis
      by (simp split: option.splits)
  qed
next
  assume a: "session = Some user \<and> truthy_str (su_email user) \<and> int4 oid
        \<and> parseInt_id (su_id user) = Num u \<and> int4 u"
  let ?P = "\<lambda>m. uo_organizationId m = oid \<and> uo_userId m = u"
  from a have email: "truthy_str (su_email user)" and oid: "int4 oid"
    and u: "sql_int4_param (parseInt_id (su_id user)) = Some u"
    by simp_all
  from a have eq: "assertRole session db oid rs =
     (case find ?P (userOrganizations db) of
        None \<Rightarrow> Inl NotAMember
      | Some m \<Rightarrow>
          if list_ex (\<lambda>r. hasMinimumRole (uo_role m) (role_key r)) rs then Inr (uo_role m, oid)
          else Inl (InsufficientRole rs))"
    by (simp add: assertRole_find [OF fk email oid u])
  show "assertRole session db oid rs = Inl NotAMember
          \<longleftrightarrow> \<not> (\<exists>m\<in>set (userOrganizations db). uo_userId m = u \<and> uo_organizationId m = oid)"
  proof (cases "find ?P (userOrganizations db)")
    case None
    then have "assertRole session db oid rs = Inl NotAMember"
      by (simp add: eq)
    moreover from None have "\<not> (\<exists>m\<in>set (userOrganizations db). ?P m)"
      by (simp add: find_None_iff)
    ultimately show ?thesis
      by auto
  next
    case (Some m)
    then have "m \<in> set (userOrganizations db)" and "?P m"
      by (auto simp: find_Some_iff)
    moreover from Some have "assertRole session db oid rs \<noteq> Inl NotAMember"
      by (simp add: eq)
    ultimately show ?thesis
      by auto
  qed
  show "assertRole session db oid rs = Inl (InsufficientRole rs)
          \<longleftrightarrow> (\<exists>m\<in>set (userOrganizations db). uo_userId m = u \<and> uo_organizationId m = oid
                \<and> \<not> (\<exists>r\<in>set rs. hasMinimumRole (uo_role m) (role_key r)))"
  proof (cases "find ?P (userOrganizations db)")
    case None
    then have "assertRole session db oid rs = Inl NotAMember"
      by (simp add: eq)
    moreover from None have "\<not> (\<exists>m\<in>set (userOrganizations db). ?P m)"
      by (simp add: find_None_iff)
    ultimately show ?thesis
      by auto
  next
    case (Some m)
    then have m: "m \<in> set (userOrganizations db)" "?P m"
      by (auto simp: find_Some_iff)
    have only: "m' = m" if "m' \<in> set (userOrganizations db)" "uo_userId m' = u"
      "uo_organizationId m' = oid" for m'
      using uniq_user_org_same [OF uniq that(1) m(1)] that m(2) by simp
    from Some have r: "assertRole session db oid rs = Inl (InsufficientRole rs)
        \<longleftrightarrow> \<not> (\<exists>r\<in>set rs. hasMinimumRole (uo_role m) (role_key r))"
      by (simp add: eq list_ex_iff)
    show ?thesis
      unfolding r using m only by blast
  qed
  show "\<forall>m\<in>set (userOrganizations db). uo_userId m = u \<and> uo_organizationId m = oid
             \<and> (\<exists>r\<in>set rs. hasMinimumRole (uo_role m) (role_key r))
           \<longrightarrow> assertRole session db oid rs = Inr (uo_role m, oid)"
  proof (intro ballI impI)
    fix m
    assume m: "m \<in> set (userOrganizations db)"
      and h: "uo_userId m = u \<and> uo_organizationId m = oid
             \<and> (\<exists>r\<in>set rs. hasMinimumRole (uo_role m) (role_key r))"
    from find_unique_membership [OF uniq m] h
    have "find ?P (userOrganizations db) = Some m"
      by simp
    with h show "assertRole session db oid rs = Inr (uo_role m, oid)"
      by (simp add: eq list_ex_iff)
  qed
qed

lemmas scenario_defs = scenario_db_def scenario_org_def scenario_session_def

theorem assertRole_outcomes_witness:
  "assertRole scenario_session scenario_db 2 [Member] = Inl NotAMember
   \<and> assertRole scenario_session scenario_db 1 [Admin, Owner] = Inl (InsufficientRole [Admin, Owner])
   \<and> assertRole scenario_session scenario_db 1 [Member] = Inr (''member'', 1)
   \<and> assertRole None scenario_db 1 [Member] = Inl Unauthorized
   \<and> assertRole scenario_session scenario_db (- 2147483649) [Member] = Inl StorageError"
proof -
  let ?user = "\<lparr>su_id = Some ''7'', su_email = Some ''user7@example.com'', su_organizations = None\<rparr>"
  have fk: "user_organizations_organization_fk scenario_db"
    by (simp add: user_organizations_organization_fk_def scenario_defs)
  have uniq: "uniq_user_org (userOrganizations scenario_db)"
    by (simp add: uniq_user_org_def scenario_defs)
  have sess: "scenario_session = Some ?user \<and> truthy_str (su_email ?user)"
    and p: "parseInt_id (su_id ?user) = Num 7" and r: "int4 7" "int4 1" "int4 2"
    "\<not> int4 (- 2147483649)"
    by (simp_all add: scenario_session_def parseInt_id_def parseInt_unfold int4_def)
  have rows: "userOrganizations scenario_db =
        [\<lparr>uo_id = 1, uo_userId = 7, uo_organizationId = 1, uo_role = ''member'', uo_createdAt = 0\<rparr>,
         \<lparr>uo_id = 2, uo_userId = 8, uo_organizationId = 2, uo_role = ''owner'', uo_createdAt = 0\<rparr>]"
    by (simp add: scenario_db_def)
  have a: "assertRole scenario_session scenario_db 2 [Member] = Inl NotAMember"
    using assertRole_outcomes [OF fk uniq, of scenario_session 2 "[Member]" ?user 7] sess p r
    by (simp add: rows)
  have b: "assertRole scenario_session scenario_db 1 [Admin, Owner] = Inl (InsufficientRole [Admin, Owner])"
    using assertRole_outcomes [OF fk uniq, of scenario_session 1 "[Admin, Owner]" ?user 7] sess p r
    by (simp add: rows hasMinimumRole_def ROLES_def)
  have c: "assertRole scenario_session scenario_db 1 [Member] = Inr (''member'', 1)"
    using assertRole_outcomes [OF fk uniq, of scenario_session 1 "[Member]" ?user 7] sess p r
    by (simp add: rows hasMinimumRole_def ROLES_def)
  have d: "assertRole None scenario_db 1 [Member] = Inl Unauthorized"
    using assertRole_outcomes [OF fk uniq, of None 1 "[Member]" ?user 7]
    by simp
  have e: "assertRole scenario_session scenario_db (- 2147483649) [Member] = Inl StorageError"
    using assertRole_outcomes [OF fk uniq, of scenario_session "- 2147483649" "[Member]" ?user 7]
      sess r(4)
    by simp
  from a b c d e show ?thesis
    by simp
qed

section \<open>Gateway construction: theorems\<close>

lemma OrgDatabase_create_storage:
  assumes "truthy_str (su_id user)"
    and "\<not> int4 oid \<or> sql_int4_param (parseInt_id (su_id user)) = None"
  shows "OrgDatabase_create (Some user) db oid = Inl StorageError"
  using assms by (auto simp: OrgDatabase_create_def split: option.splits)

lemma OrgDatabase_create_eq:
  assumes "truthy_str (su_id user)"
    and "int4 oid" and "sql_int4_param (parseInt_id (su_id user)) = Some u"
  shows "OrgDatabase_create (Some user) db oid =
     (if \<exists>m\<in>set (userOrganizations db). uo_organizationId m = oid \<and> uo_userId m = u
      then Inr \<lparr>orgId = oid, userId = the (su_id user)\<rparr>
      else Inl NotAMember)"
  using assms
  by (auto simp: OrgDatabase_create_def sql_where_def sql_limit_def Let_def filter_empty_conv)

lemma OrgDatabase_create_success:
  assumes "OrgDatabase_create session db oid = Inr gw"
  shows "\<exists>user u. session = Some user \<and> truthy_str (su_id user) \<and> int4 oid
           \<and> sql_int4_param (parseInt_id (su_id user)) = Some u
           \<and> (\<exists>m\<in>set (userOrganizations db). uo_organizationId m = oid \<and> uo_userId m = u)
           \<and> gw = \<lparr>orgId = oid, userId = the (su_id user)\<rparr>"
proof -
  from assms obtain user where s: "session = Some user"
    by (cases session) (simp_all add: OrgDatabase_create_def)
  with assms have id: "truthy_str (su_id user)"
    by (auto simp: OrgDatabase_create_def split: if_splits)
  have ok: "int4 oid \<and> sql_int4_param (parseInt_id (su_id user)) \<noteq> None"
  proof (rule ccontr)
    assume "\<not> (int4 oid \<and> sql_int4_param (parseInt_id (su_id user)) \<noteq> None)"
    then have "OrgDatabase_create (Some user) db oid = Inl StorageError"
      using OrgDatabase_create_storage [OF id] by blast
    with assms s show False
      by simp
  qed
  then obtain u where u: "sql_int4_param (parseInt_id (su_id user)) = Some u"
    by auto
  from assms s OrgDatabase_create_eq [OF id _ u, of oid db] ok
  have "(\<exists>m\<in>set (userOrganizations db). uo_organizationId m = oid \<and> uo_userId m = u)
      \<and> gw = \<lparr>orgId = oid, userId = the (su_id user)\<rparr>"
    by (auto split: if_splits)
  with s id ok u show ?thesis
    by blast
qed





section \<open>Tenant-scoped gateway: theorems\<close>

lemma set_sql_where: "set (sql_where cs rows) = {r \<in> set rows. \<forall>c\<in>set cs. c r}"
  by (auto simp: sql_where_def list_all_iff)

lemma set_sql_limit: "set (sql_limit n rows) \<subseteq> set rows"
  by (simp add: sql_limit_def set_take_subset)

lemma set_sql_orderBy: "set (sql_orderBy col rows) = set rows"
  by (simp add: sql_orderBy_def)

lemma getProjects_eq:
  "getProjects this db = filter (\<lambda>p. p_organizationId p = orgId this) (projects db)"
  by (simp add: getProjects_def sql_where_def)

lemma getProject_eq:
  "getProject this db projectId =
     (if int4 projectId
      then Inr (find (\<lambda>p. p_id p = projectId \<and> p_organizationId p = orgId this) (projects db))
      else Inl StorageError)"
proof -
  have "(case take 1 (filter P xs) of [] \<Rightarrow> None | p # _ \<Rightarrow> Some p) = find P xs" for P and xs :: "project list"
    by (induction xs) simp_all
  then show ?thesis
    by (simp add: getProject_def sql_where_def sql_limit_def)
qed

lemma getProject_Some:
  assumes "getProject this db projectId = Inr (Some p)"
  shows "p \<in> set (projects db) \<and> p_id p = projectId \<and> p_organizationId p = orgId this
         \<and> int4 projectId"
  using assms by (auto simp: getProject_eq find_Some_iff split: if_splits)

lemma getProject_None_iff:
  "getProject this db projectId = Inr None \<longleftrightarrow>
     int4 projectId
     \<and> \<not> (\<exists>p\<in>set (projects db). p_id p = projectId \<and> p_organizationId p = orgId this)"
  by (auto simp: getProject_eq find_None_iff)

lemma getProject_error_iff:
  "getProject this db projectId = Inl err \<longleftrightarrow> err = StorageError \<and> \<not> int4 projectId"
  by (auto simp: getProject_eq)

lemma getEvents_rows:
  assumes "e \<in> set (getEvents this db projectId limit)"
  shows "e \<in> set (events db) \<and> e_organizationId e = orgId this"
proof -
  from assms obtain cs where
    "e \<in> set (sql_where ((\<lambda>e. e_organizationId e = orgId this) # cs) (events db))"
    using set_sql_limit [THEN subsetD]
    by (fastforce simp: getEvents_def Let_def set_sql_orderBy split: if_splits)
  then show ?thesis
    by (simp add: set_sql_where)
qed

lemma getKpiSnapshots_rows:
  assumes "k \<in> set (getKpiSnapshots this db projectId key)"
  shows "k \<in> set (kpiSnapshots db) \<and> k_organizationId k = orgId this"
  using assms
  by (auto simp: getKpiSnapshots_def Let_def set_sql_orderBy set_sql_where split: if_splits)

lemma getOrganization_rows:
  assumes "org \<in> set (getOrganization this db)"
  shows "org \<in> set (organizations db) \<and> org_id org = orgId this"
  using assms set_sql_limit [THEN subsetD]
  by (fastforce simp: getOrganization_def set_sql_where)

lemma createProject_effect:
  assumes "createProject this db accepts data rnd now = Inr (db', rows)"
  shows "\<exists>row. rows = [row] \<and> p_organizationId row = orgId this \<and> accepts db row
           \<and> db' = db\<lparr>projects := projects db @ [row], projects_id_seq := projects_id_seq db + 1\<rparr>"
  using assms by (auto simp: createProject_def Let_def split: if_splits)

lemma createProject_error:
  assumes "createProject this db accepts data rnd now = Inl err"
  shows "err = StorageError"
  using assms by (auto simp: createProject_def Let_def split: if_splits)

lemma insertEvent_declared:
  assumes "eventData_declared_only data"
  shows "insertEvent this db accepts projectId data now =
     (case getProject this db projectId of
        Inl err \<Rightarrow> Inl err
      | Inr None \<Rightarrow> Inl ProjectNotFound
      | Inr (Some project) \<Rightarrow>
          if accepts db (declared_event_row this db projectId data now)
          then Inr (db\<lparr>events := events db @ [declared_event_row this db projectId data now],
                       events_id_seq := events_id_seq db + 1\<rparr>,
                    [declared_event_row this db projectId data now])
          else Inl StorageError)"
  using assms
  by (simp add: insertEvent_def eventData_declared_only_def declared_event_row_def Let_def
      split: sum.splits option.splits)

lemma insertEvent_ProjectNotFound_iff:
  "insertEvent this db accepts projectId data now = Inl ProjectNotFound
     \<longleftrightarrow> getProject this db projectId = Inr None"
proof (cases "getProject this db projectId")
  case (Inl err)
  then have "err = StorageError"
    by (simp add: getProject_error_iff)
  with Inl show ?thesis
    by (simp add: insertEvent_def)
next
  case (Inr r)
  show ?thesis
  proof (cases r)
    case None
    with Inr show ?thesis
      by (simp add: insertEvent_def)
  next
    case (Some project)
    with Inr show ?thesis
      by (simp add: insertEvent_def Let_def split: option.splits)
  qed
qed

lemma insertEvent_effect:
  assumes "insertEvent this db accepts projectId data now = Inr (db', rows)"
    and "eventData_declared_only data"
  shows "\<exists>row. rows = [row] \<and> e_organizationId row = orgId this \<and> e_projectId row = projectId
           \<and> accepts db row
           \<and> db' = db\<lparr>events := events db @ [row], events_id_seq := events_id_seq db + 1\<rparr>"
  using assms(1) unfolding insertEvent_declared [OF assms(2)]
  by (auto simp: declared_event_row_def split: sum.splits option.splits if_splits)

lemma created_gateway_membership:
  assumes "OrgDatabase_create session db oid = Inr gw"
  shows "orgId gw = oid \<and> int4 (orgId gw) \<and>
         (\<exists>user u. session = Some user \<and> sql_int4_param (parseInt_id (su_id user)) = Some u
            \<and> (\<exists>m\<in>set (userOrganizations db). uo_organizationId m = orgId gw \<and> uo_userId m = u))"
  using OrgDatabase_create_success [OF assms] by auto

lemma created_gateway_rows_have_membership:
  assumes "OrgDatabase_create session db oid = Inr gw"
    and "p \<in> set (getProjects gw db')"
  shows "\<exists>user u. session = Some user \<and> sql_int4_param (parseInt_id (su_id user)) = Some u
            \<and> (\<exists>m\<in>set (userOrganizations db).
                  uo_organizationId m = p_organizationId p \<and> uo_userId m = u)"
  using created_gateway_membership [OF assms(1)] assms(2)
  by (auto simp: getProjects_eq)

text \<open>
  What holds of C1. For a gateway bound to organization \<open>A = orgId this\<close>, every row that
  \<^verbatim>\<open>getProjects\<close>, \<^verbatim>\<open>getProject\<close>, \<^verbatim>\<open>getEvents\<close>, \<^verbatim>\<open>getKpiSnapshots\<close> and
  \<^verbatim>\<open>getOrganization\<close> return is a stored row of organization \<open>A\<close>, for every project id,
  limit and key.
\<close>

lemma gateway_reads_org_scoped:
  "(\<forall>p\<in>set (getProjects this db). p \<in> set (projects db) \<and> p_organizationId p = orgId this)
   \<and> (\<forall>p. getProject this db projectId = Inr (Some p) \<longrightarrow>
          p \<in> set (projects db) \<and> p_organizationId p = orgId this)
   \<and> (\<forall>e\<in>set (getEvents this db filterProject limit).
          e \<in> set (events db) \<and> e_organizationId e = orgId this)
   \<and> (\<forall>k\<in>set (getKpiSnapshots this db filterProject key).
          k \<in> set (kpiSnapshots db) \<and> k_organizationId k = orgId this)
   \<and> (\<forall>org\<in>set (getOrganization this db). org_id org = orgId this)"
proof (intro conjI ballI allI impI)
  fix p
  assume "p \<in> set (getProjects this db)"
  then show "p \<in> set (projects db)" and "p_organizationId p = orgId this"
    by (simp_all add: getProjects_eq)
next
  fix p
  assume "getProject this db projectId = Inr (Some p)"
  from getProject_Some [OF this]
  show "p \<in> set (projects db)" and "p_organizationId p = orgId this"
    by simp_all
next
  fix e
  assume "e \<in> set (getEvents this db filterProject limit)"
  from getEvents_rows [OF this]
  show "e \<in> set (events db)" and "e_organizationId e = orgId this"
    by simp_all
next
  fix k
  assume "k \<in> set (getKpiSnapshots this db filterProject key)"
  from getKpiSnapshots_rows [OF this]
  show "k \<in> set (kpiSnapshots db)" and "k_organizationId k = orgId this"
    by simp_all
next
  fix org
  assume "org \<in> set (getOrganization this db)"
  from getOrganization_rows [OF this] show "org_id org = orgId this"
    by simp
qed

text \<open>
  \<^verbatim>\<open>createProject\<close>, and \<^verbatim>\<open>insertEvent\<close> for event data with the declared properties only,
  append one row of organization \<open>A\<close> to their table and change nothing else, so the rows
  of every organization \<open>B \<noteq> A\<close> are the same before and after.
\<close>

lemma gateway_writes_org_scoped:
  "(\<forall>db' rows. createProject this db accepts_project data rnd now = Inr (db', rows) \<longrightarrow>
          (\<exists>row. rows = [row] \<and> p_organizationId row = orgId this
             \<and> projects db' = projects db @ [row])
          \<and> events db' = events db \<and> kpiSnapshots db' = kpiSnapshots db
          \<and> organizations db' = organizations db
          \<and> userOrganizations db' = userOrganizations db
          \<and> (\<forall>B. B \<noteq> orgId this \<longrightarrow>
                filter (\<lambda>p. p_organizationId p = B) (projects db')
                  = filter (\<lambda>p. p_organizationId p = B) (projects db)))
   \<and> (\<forall>db' rows. eventData_declared_only eventFields
          \<and> insertEvent this db accepts_event projectId eventFields now = Inr (db', rows) \<longrightarrow>
          (\<exists>row. rows = [row] \<and> e_organizationId row = orgId this
             \<and> events db' = events db @ [row])
          \<and> projects db' = projects db \<and> kpiSnapshots db' = kpiSnapshots db
          \<and> organizations db' = organizations db
          \<and> userOrganizations db' = userOrganizations db
          \<and> (\<forall>B. B \<noteq> orgId this \<longrightarrow>
                filter (\<lambda>e. e_organizationId e = B) (events db')
                  = filter (\<lambda>e. e_organizationId e = B) (events db)))"
proof (intro conjI allI impI)
  fix db' rows
  assume "createProject this db accepts_project data rnd now = Inr (db', rows)"
  from createProject_effect [OF this] obtain row where
    row: "rows = [row]" "p_organizationId row = orgId this"
    and db': "db' = db\<lparr>projects := projects db @ [row], projects_id_seq := projects_id_seq db + 1\<rparr>"
    by blast
  from row db' show "\<exists>row. rows = [row] \<and> p_organizationId row = orgId this
             \<and> projects db' = projects db @ [row]"
    by simp
  from db' show "events db' = events db" and "kpiSnapshots db' = kpiSnapshots db"
    and "organizations db' = organizations db" and "userOrganizations db' = userOrganizations db"
    by simp_all
  fix B
  assume "B \<noteq> orgId this"
  with row db' show "filter (\<lambda>p. p_organizationId p = B) (projects db')
                  = filter (\<lambda>p. p_organizationId p = B) (projects db)"
    by simp
next
  fix db' rows
  assume a: "eventData_declared_only eventFields
          \<and> insertEvent this db accepts_event projectId eventFields now = Inr (db', rows)"
  then have "insertEvent this db accepts_event projectId eventFields now = Inr (db', rows)"
    and "eventData_declared_only eventFields"
    by simp_all
  from insertEvent_effect [OF this] obtain row where
    row: "rows = [row]" "e_organizationId row = orgId this"
    and db': "db' = db\<lparr>events := events db @ [row], events_id_seq := events_id_seq db + 1\<rparr>"
    by blast
  from row db' show "\<exists>row. rows = [row] \<and> e_organizationId row = orgId this
             \<and> events db' = events db @ [row]"
    by simp
  from db' show "projects db' = projects db" and "kpiSnapshots db' = kpiSnapshots db"
    and "organizations db' = organizations db" and "userOrganizations db' = userOrganizations db"
    by simp_all
  fix B
  assume "B \<noteq> orgId this"
  with row db' show "filter (\<lambda>e. e_organizationId e = B) (events db')
                  = filter (\<lambda>e. e_organizationId e = B) (events db)"
    by simp
qed

lemma createProject_examples:
  "map_sum id (\<lambda>(db', rows). (map p_id rows, map p_organizationId rows, map p_apiKey rows,
        map p_id (projects db')))
     (createProject example_gateway example_db projects_constraints example_projectData (\<lambda>i. i) 40)
     = Inr ([7], [1], [''ABCDEFGHIJKLMNOPQRSTUVWXYZabcdef''], [5, 6, 7])
   \<and> createProject example_gateway example_db projects_constraints
        (example_projectData\<lparr>pd_name := replicate 256 (CHR ''x'')\<rparr>) (\<lambda>i. i) 40 = Inl StorageError"
  by code_simp

lemma example_db_constraints:
  "projects_pkey (projects example_db)
   \<and> distinct (map p_apiKey (projects example_db))
   \<and> distinct (map e_id (events example_db))
   \<and> list_all (\<lambda>e. list_ex (\<lambda>org. org_id org = e_organizationId e) (organizations example_db)
                  \<and> list_ex (\<lambda>p. p_id p = e_projectId e) (projects example_db)) (events example_db)
   \<and> list_all (\<lambda>p. list_ex (\<lambda>org. org_id org = p_organizationId p) (organizations example_db))
        (projects example_db)"
  by code_simp

text \<open>
  C1 at a failing input. The gateway is bound to organization 1, and project 5 is a
  project of organization 1. The event data is an object with the own properties
  \<^verbatim>\<open>eventName\<close>, \<^verbatim>\<open>organizationId: 2\<close> and \<^verbatim>\<open>projectId: 6\<close>. \<^verbatim>\<open>insertEvent(5, eventData)\<close> passes
  the project check and spreads the event data over the stamped \<^verbatim>\<open>organizationId\<close> and
  \<^verbatim>\<open>projectId\<close>: the row it writes, and returns, is a row of organization 2 in project 6,
  and the events that a gateway bound to organization 2 lists are no more the same.
\<close>

theorem insertEvent_writes_row_of_other_organization:
  "orgId example_gateway = 1
   \<and> getProject example_gateway example_db 5 = Inr (Some (example_project 5 1 True))
   \<and> insertEvent example_gateway example_db events_constraints 5 spread_eventData 40
       = Inr (example_db
                \<lparr>events := events example_db @ [(example_event 4 2 6 40)\<lparr>e_eventName := ''purchase''\<rparr>],
                 events_id_seq := 4\<rparr>,
              [(example_event 4 2 6 40)\<lparr>e_eventName := ''purchase''\<rparr>])
   \<and> map e_id (getEvents \<lparr>orgId = 2, userId = ''8''\<rparr> example_db None None) = [2]
   \<and> map e_id (getEvents \<lparr>orgId = 2, userId = ''8''\<rparr>
        (example_db
           \<lparr>events := events example_db @ [(example_event 4 2 6 40)\<lparr>e_eventName := ''purchase''\<rparr>],
            events_id_seq := 4\<rparr>) None None) = [2, 4]"
  by code_simp

text \<open>
  What holds of C5. For every project id, \<^verbatim>\<open>insertEvent\<close> fails with
  \<^verbatim>\<open>Project not found or access denied\<close> exactly when the org-scoped \<^verbatim>\<open>getProject\<close>
  yields none, that is when the id is an int4 and no project with this id belongs to the
  bound organization: also when the project with this id exists and belongs to another
  organization. For an id that is not an int4 the query of \<^verbatim>\<open>getProject\<close> throws, and
  \<^verbatim>\<open>insertEvent\<close> with it. When \<^verbatim>\<open>getProject\<close> yields a project and the event data has
  the declared properties only, \<^verbatim>\<open>insertEvent\<close> appends exactly one event row, of the bound
  organization and of the given project, and returns it, if the storage layer accepts
  the row, and throws if not.
\<close>

lemma insertEvent_project_scoped:
  "(insertEvent this db accepts projectId eventFields now = Inl ProjectNotFound
      \<longleftrightarrow> getProject this db projectId = Inr None)
   \<and> (getProject this db projectId = Inr None
      \<longleftrightarrow> int4 projectId
          \<and> \<not> (\<exists>p\<in>set (projects db). p_id p = projectId \<and> p_organizationId p = orgId this))
   \<and> (\<not> int4 projectId \<longrightarrow>
        getProject this db projectId = Inl StorageError
        \<and> insertEvent this db accepts projectId eventFields now = Inl StorageError)
   \<and> (projects_pkey (projects db) \<and> p \<in> set (projects db) \<and> p_id p = projectId
        \<and> p_organizationId p \<noteq> orgId this \<and> int4 projectId \<longrightarrow>
      insertEvent this db accepts projectId eventFields now = Inl ProjectNotFound)
   \<and> (getProject this db projectId = Inr (Some p') \<and> eventData_declared_only eventFields \<longrightarrow>
        e_organizationId (declared_event_row this db projectId eventFields now) = orgId this
        \<and> e_projectId (declared_event_row this db projectId eventFields now) = projectId
        \<and> insertEvent this db accepts projectId eventFields now =
            (if accepts db (declared_event_row this db projectId eventFields now)
             then Inr (db\<lparr>events := events db @ [declared_event_row this db projectId eventFields now],
                          events_id_seq := events_id_seq db + 1\<rparr>,
                       [declared_event_row this db projectId eventFields now])
             else Inl StorageError))"
proof (intro conjI impI)
  show "insertEvent this db accepts projectId eventFields now = Inl ProjectNotFound
      \<longleftrightarrow> getProject this db projectId = Inr None"
    by (rule insertEvent_ProjectNotFound_iff)
  show "getProject this db projectId = Inr None
      \<longleftrightarrow> int4 projectId
          \<and> \<not> (\<exists>p\<in>set (projects db). p_id p = projectId \<and> p_organizationId p = orgId this)"
    by (rule getProject_None_iff)
next
  assume "\<not> int4 projectId"
  then show "getProject this db projectId = Inl StorageError"
    and "insertEvent this db accepts projectId eventFields now = Inl StorageError"
    by (simp_all add: insertEvent_def getProject_eq)
next
  assume a: "projects_pkey (projects db) \<and> p \<in> set (projects db) \<and> p_id p = projectId
        \<and> p_organizationId p \<noteq> orgId this \<and> int4 projectId"
  then have inj: "inj_on p_id (set (projects db))"
    by (simp add: projects_pkey_def distinct_map)
  have "\<not> (\<exists>q\<in>set (projects db). p_id q = projectId \<and> p_organizationId q = orgId this)"
  proof
    assume "\<exists>q\<in>set (projects db). p_id q = projectId \<and> p_organizationId q = orgId this"
    then obtain q where q: "q \<in> set (projects db)" "p_id q = projectId"
      "p_organizationId q = orgId this"
      by blast
    with a inj have "q = p"
      by (auto dest: inj_onD)
    with q a show False
      by simp
  qed
  with a have "getProject this db projectId = Inr None"
    by (simp add: getProject_None_iff)
  then show "insertEvent this db accepts projectId eventFields now = Inl ProjectNotFound"
    by (simp add: insertEvent_ProjectNotFound_iff)
next
  assume a: "getProject this db projectId = Inr (Some p') \<and> eventData_declared_only eventFields"
  show "e_organizationId (declared_event_row this db projectId eventFields now) = orgId this"
    and "e_projectId (declared_event_row this db projectId eventFields now) = projectId"
    by (simp_all add: declared_event_row_def)
  from a have d: "eventData_declared_only eventFields"
    by simp
  from a show "insertEvent this db accepts projectId eventFields now =
            (if accepts db (declared_event_row this db projectId eventFields now)
             then Inr (db\<lparr>events := events db @ [declared_event_row this db projectId eventFields now],
                          events_id_seq := events_id_seq db + 1\<rparr>,
                       [declared_event_row this db projectId eventFields now])
             else Inl StorageError)"
    unfolding insertEvent_declared [OF d] by simp
qed

lemma insertEvent_project_scoped_examples:
  "insertEvent example_gateway example_db events_constraints 6 example_eventData 40 = Inl ProjectNotFound
   \<and> insertEvent example_gateway example_db events_constraints 99 example_eventData 40 = Inl ProjectNotFound
   \<and> insertEvent example_gateway example_db events_constraints 4294967297 example_eventData 40
       = Inl StorageError
   \<and> insertEvent example_gateway example_db events_constraints 5 example_eventData 40
       = Inr (example_db
                \<lparr>events := events example_db @ [(example_event 4 1 5 40)\<lparr>e_eventName := ''purchase''\<rparr>],
                 events_id_seq := 4\<rparr>,
              [(example_event 4 1 5 40)\<lparr>e_eventName := ''purchase''\<rparr>])
   \<and> insertEvent example_gateway example_db events_constraints 5
        (example_eventData\<lparr>ed_eventName := replicate 256 (CHR ''x'')\<rparr>) 40 = Inl StorageError"
  by code_simp

text \<open>
  C5 at a failing input. The gateway is bound to organization 1, and the org-scoped
  \<^verbatim>\<open>getProject(5)\<close> yields project 5. The event data is an object with the own properties
  \<^verbatim>\<open>eventName\<close> and \<^verbatim>\<open>organizationId: 2\<close>. \<^verbatim>\<open>insertEvent(5, eventData)\<close> inserts exactly one
  event row, and its \<^verbatim>\<open>organizationId\<close> is 2, not the bound organization 1: the spread
  \<^verbatim>\<open>...eventData\<close> comes after the stamped \<^verbatim>\<open>organizationId: this.orgId\<close>.
\<close>

theorem insertEvent_row_not_stamped_with_bound_org:
  "orgId example_gateway = 1
   \<and> getProject example_gateway example_db 5 = Inr (Some (example_project 5 1 True))
   \<and> ed_organizationId foreign_org_eventData = Some (Num 2)
   \<and> insertEvent example_gateway example_db events_constraints 5 foreign_org_eventData 40
       = Inr (example_db
                \<lparr>events := events example_db @ [(example_event 4 2 5 40)\<lparr>e_eventName := ''purchase''\<rparr>],
                 events_id_seq := 4\<rparr>,
              [(example_event 4 2 5 40)\<lparr>e_eventName := ''purchase''\<rparr>])
   \<and> map e_organizationId [(example_event 4 2 5 40)\<lparr>e_eventName := ''purchase''\<rparr>] = [2]"
  by code_simp

text \<open>
  C10. \<^verbatim>\<open>getEvents\<close> and \<^verbatim>\<open>getKpiSnapshots\<close> called with the project id 0 give what they
  give without a project id: the project condition is skipped, and the rows are those of
  the bound organization in every project (the first \<open>limit\<close> events by timestamp; all
  snapshots, or those of the given key), not the rows of a project with id 0.
\<close>

theorem project_id_zero_is_no_filter:
  "getEvents this db (Some 0) limit = getEvents this db None limit
   \<and> getKpiSnapshots this db (Some 0) key = getKpiSnapshots this db None key
   \<and> getEvents this db (Some 0) limit =
       take (case limit of None \<Rightarrow> 1000 | Some n \<Rightarrow> n)
         (sort_key e_timestamp (filter (\<lambda>e. e_organizationId e = orgId this) (events db)))
   \<and> set (getKpiSnapshots this db (Some 0) None)
       = {k \<in> set (kpiSnapshots db). k_organizationId k = orgId this}
   \<and> getKpiSnapshots this db (Some 0) (Some (c # cs)) =
       sort_key k_periodStart
         (filter (\<lambda>k. k_organizationId k = orgId this \<and> k_key k = c # cs) (kpiSnapshots db))"
proof (intro conjI)
  show "getEvents this db (Some 0) limit = getEvents this db None limit"
    by (simp add: getEvents_def)
  show "getKpiSnapshots this db (Some 0) key = getKpiSnapshots this db None key"
    by (simp add: getKpiSnapshots_def)
  show "getEvents this db (Some 0) limit =
       take (case limit of None \<Rightarrow> 1000 | Some n \<Rightarrow> n)
         (sort_key e_timestamp (filter (\<lambda>e. e_organizationId e = orgId this) (events db)))"
    by (simp add: getEvents_def sql_limit_def sql_orderBy_def sql_where_def)
  show "set (getKpiSnapshots this db (Some 0) None)
       = {k \<in> set (kpiSnapshots db). k_organizationId k = orgId this}"
    by (simp add: getKpiSnapshots_def sql_orderBy_def sql_where_def)
  show "getKpiSnapshots this db (Some 0) (Some (c # cs)) =
       sort_key k_periodStart
         (filter (\<lambda>k. k_organizationId k = orgId this \<and> k_key k = c # cs) (kpiSnapshots db))"
    by (simp add: getKpiSnapshots_def sql_orderBy_def sql_where_def)
qed

theorem project_id_zero_is_no_filter_witness:
  "map e_projectId (getEvents example_gateway example_db (Some 0) None) = [5, 5]
   \<and> map e_projectId (getEvents example_gateway example_db None None) = [5, 5]
   \<and> map k_projectId (getKpiSnapshots example_gateway example_db (Some 0) None) = [None, Some 5]"
proof -
  note t = project_id_zero_is_no_filter [of example_gateway example_db None None "CHR ''k''" "[]"]
  have ev: "events example_db = [example_event 1 1 5 30, example_event 2 2 6 20, example_event 3 1 5 10]"
    and A: "orgId example_gateway = 1"
    by (simp_all add: example_db_def example_gateway_def)
  from t have "getEvents example_gateway example_db (Some 0) None =
       take (case None of None \<Rightarrow> 1000 | Some n \<Rightarrow> n)
         (sort_key e_timestamp
           (filter (\<lambda>e. e_organizationId e = orgId example_gateway) (events example_db)))"
    by (elim conjE)
  then have a: "map e_projectId (getEvents example_gateway example_db (Some 0) None) = [5, 5]"
    by (simp add: ev A example_event_def)
  moreover from t have "getEvents example_gateway example_db (Some 0) None
      = getEvents example_gateway example_db None None"
    by (elim conjE)
  ultimately have b: "map e_projectId (getEvents example_gateway example_db None None) = [5, 5]"
    by simp
  have "map k_projectId (getKpiSnapshots example_gateway example_db None None) = [None, Some 5]"
    by (simp add: getKpiSnapshots_def sql_orderBy_def sql_where_def
        example_db_def example_gateway_def example_kpi_def)
  moreover from t have "getKpiSnapshots example_gateway example_db (Some 0) None
      = getKpiSnapshots example_gateway example_db None None"
    by (elim conjE)
  ultimately have c: "map k_projectId (getKpiSnapshots example_gateway example_db (Some 0) None) = [None, Some 5]"
    by simp
  from a b c show ?thesis
    by simp
qed


section \<open>Dashboard aggregation: theorems\<close>

lemma getOrgDashboard_success:
  assumes "getOrgDashboard session db oid = Inr d"
  shows "\<exists>orgDb. getOrgDb session db oid = Inr orgDb \<and> orgId orgDb = oid
           \<and> d_projects d = getProjects orgDb db
           \<and> d_recentEvents d = getEvents orgDb db None (Some 10)
           \<and> d_kpiSnapshots d = getKpiSnapshots orgDb db None None
           \<and> d_organization d = getOrganization orgDb db
           \<and> totalProjects (d_metrics d) = length (d_projects d)
           \<and> activeProjects (d_metrics d) = length (filter p_isActive (d_projects d))
           \<and> totalEvents (d_metrics d) = length (d_recentEvents d)"
proof -
  from assms obtain orgDb where g: "getOrgDb session db oid = Inr orgDb"
    by (auto simp: getOrgDashboard_def split: sum.splits)
  then have "OrgDatabase_create session db oid = Inr orgDb"
    by (simp add: getOrgDb_def)
  from OrgDatabase_create_success [OF this] have "orgId orgDb = oid"
    by auto
  with assms g show ?thesis
    by (auto simp: getOrgDashboard_def Let_def split: sum.splits)
qed

lemma getEvents_page:
  "getEvents this db None (Some n) =
     take n (sort_key e_timestamp (filter (\<lambda>e. e_organizationId e = orgId this) (events db)))"
  by (simp add: getEvents_def sql_limit_def sql_orderBy_def sql_where_def)

lemma getOrgDashboard_page:
  assumes "getOrgDashboard session db oid = Inr d"
  shows "d_recentEvents d =
           take 10 (sort_key e_timestamp (filter (\<lambda>e. e_organizationId e = oid) (events db)))
         \<and> totalEvents (d_metrics d) = min 10 (length (filter (\<lambda>e. e_organizationId e = oid) (events db)))
         \<and> sorted (map e_timestamp (d_recentEvents d))"
proof -
  from getOrgDashboard_success [OF assms] obtain orgDb where
    o: "orgId orgDb = oid" and r: "d_recentEvents d = getEvents orgDb db None (Some 10)"
    and t: "totalEvents (d_metrics d) = length (d_recentEvents d)"
    by blast
  from r o have page: "d_recentEvents d =
      take 10 (sort_key e_timestamp (filter (\<lambda>e. e_organizationId e = oid) (events db)))"
    by (simp add: getEvents_page)
  moreover from t page have "totalEvents (d_metrics d) =
      min 10 (length (filter (\<lambda>e. e_organizationId e = oid) (events db)))"
    by (simp add: min.commute)
  moreover have "sorted (map e_timestamp (d_recentEvents d))"
    unfolding page by (simp add: take_map [symmetric] sorted_wrt_take)
  ultimately show ?thesis
    by simp
qed

text \<open>
  C8 at a failing input. Organization 1 has eleven events, with the timestamps 1 to 11.
  The dashboard of a member counts the fetched projects (2), the active ones among them
  (1) and the events of the fetched page (10), as the claim says; the page itself,
  fetched by \<^verbatim>\<open>getEvents(undefined, 10)\<close> with the comment "Get last 10 events", holds the
  ten oldest events, in ascending order of timestamp, and not the most recent event,
  the one with timestamp 11.
\<close>

theorem getOrgDashboard_recentEvents_are_oldest:
  "map_sum id (\<lambda>d. (map e_timestamp (d_recentEvents d), d_metrics d))
     (getOrgDashboard scenario_session dashboard_db 1)
     = Inr ([1, 2, 3, 4, 5, 6, 7, 8, 9, 10],
            \<lparr>totalProjects = 2, activeProjects = 1, totalEvents = 10\<rparr>)
   \<and> map e_timestamp (events dashboard_db) = [11, 10, 9, 8, 7, 6, 5, 4, 3, 2, 1]
   \<and> map e_organizationId (events dashboard_db) = replicate 11 1"
  by code_simp

section \<open>KPI snapshot writes: theorems\<close>

lemma kpi_tuple_update:
  "kpi_tuple (k\<lparr>k_periodEnd := a, k_value := b, k_metadata := c, k_updatedAt := d\<rparr>) = kpi_tuple k"
  by (simp add: kpi_tuple_def)

lemma upsert_tuples:
  "map kpi_tuple (kpiSnapshots (spec_upsertKpiSnapshot db v now)) =
     (if kv_tuple v \<in> set (map kpi_tuple (kpiSnapshots db))
      then map kpi_tuple (kpiSnapshots db)
      else map kpi_tuple (kpiSnapshots db) @ [kv_tuple v])"
proof -
  have same: "map (kpi_tuple \<circ> (\<lambda>k. if kpi_tuple k = t then k\<lparr>k_periodEnd := a, k_value := b, k_metadata := c, k_updatedAt := d\<rparr> else k)) rows
      = map kpi_tuple rows" for t a b c d rows
    by (rule map_cong) (simp_all add: kpi_tuple_update)
  have new: "kpi_tuple
      \<lparr>k_id = i, k_organizationId = kv_organizationId v, k_projectId = kv_projectId v,
       k_key = kv_key v, k_periodStart = kv_periodStart v, k_periodEnd = e, k_value = x,
       k_metadata = m, k_createdAt = c, k_updatedAt = u\<rparr> = kv_tuple v" for i e x m c u
    by (simp add: kpi_tuple_def kv_tuple_def)
  have ex: "list_ex (\<lambda>k. kpi_tuple k = kv_tuple v) (kpiSnapshots db)
      \<longleftrightarrow> kv_tuple v \<in> set (map kpi_tuple (kpiSnapshots db))"
    unfolding list_ex_iff set_map image_iff by metis
  show ?thesis
    unfolding spec_upsertKpiSnapshot_def ex by (simp add: same new)
qed

lemma upsert_keyed_uniquely:
  assumes "spec_kpi_keyed_uniquely (kpiSnapshots db)"
  shows "spec_kpi_keyed_uniquely (kpiSnapshots (spec_upsertKpiSnapshot db v now))"
  using assms by (simp add: spec_kpi_keyed_uniquely_def upsert_tuples)

lemma upsert_present:
  "kv_tuple v \<in> set (map kpi_tuple (kpiSnapshots (spec_upsertKpiSnapshot db v now)))"
  by (simp add: upsert_tuples)

lemma upsert_value:
  assumes "k \<in> set (kpiSnapshots (spec_upsertKpiSnapshot db v now))" and "kpi_tuple k = kv_tuple v"
  shows "k_value k = kv_value v"
  using assms
  by (auto simp: spec_upsertKpiSnapshot_def list_ex_iff kpi_tuple_def kv_tuple_def split: if_splits)

lemma upsert_others:
  "filter (\<lambda>k. kpi_tuple k \<noteq> kv_tuple v) (kpiSnapshots (spec_upsertKpiSnapshot db v now))
     = filter (\<lambda>k. kpi_tuple k \<noteq> kv_tuple v) (kpiSnapshots db)"
proof -
  have "filter (\<lambda>k. kpi_tuple k \<noteq> t)
          (map (\<lambda>k. if kpi_tuple k = t
                     then k\<lparr>k_periodEnd := a, k_value := b, k_metadata := c, k_updatedAt := d\<rparr>
                     else k) rows)
      = filter (\<lambda>k. kpi_tuple k \<noteq> t) rows" for t a b c d rows
    by (induction rows) (simp_all add: kpi_tuple_update)
  moreover have "kpi_tuple
      \<lparr>k_id = i, k_organizationId = kv_organizationId v, k_projectId = kv_projectId v,
       k_key = kv_key v, k_periodStart = kv_periodStart v, k_periodEnd = e, k_value = x,
       k_metadata = m, k_createdAt = c, k_updatedAt = u\<rparr> = kv_tuple v" for i e x m c u
    by (simp add: kpi_tuple_def kv_tuple_def)
  ultimately show ?thesis
    by (simp add: spec_upsertKpiSnapshot_def)
qed

lemma distinct_map_filter_one:
  assumes "distinct (map f xs)" and "t \<in> set (map f xs)"
  shows "length (filter (\<lambda>x. f x = t) xs) = 1"
  using assms
proof (induction xs)
  case Nil
  then show ?case by simp
next
  case (Cons x xs)
  show ?case
  proof (cases "f x = t")
    case True
    from Cons.prems(1) have "f x \<notin> f ` set xs"
      by simp
    with True have "\<forall>y\<in>set xs. f y \<noteq> t"
      by blast
    then have "filter (\<lambda>x. f x = t) xs = []"
      by (simp add: filter_empty_conv)
    with True show ?thesis
      by simp
  next
    case False
    with Cons show ?thesis
      by auto
  qed
qed

lemma keyed_uniquely_constraint:
  assumes "spec_kpi_keyed_uniquely rows"
  shows "uniq_org_project_key_period rows"
  using assms
  by (simp add: spec_kpi_keyed_uniquely_def uniq_org_project_key_period_def distinct_map_filter)

lemma constraint_admits_null_project_duplicates:
  "uniq_org_project_key_period [example_kpi 3 1 None 100 11, example_kpi 4 1 None 100 12]
   \<and> \<not> spec_kpi_keyed_uniquely [example_kpi 3 1 None 100 11, example_kpi 4 1 None 100 12]"
  by (simp add: uniq_org_project_key_period_def spec_kpi_keyed_uniquely_def kpi_tuple_def example_kpi_def)

text \<open>
  C9. On a table keyed uniquely by (organization, project, key, period start), writing a
  snapshot twice for the same tuple with the values \<open>v1\<close> and then \<open>v2\<close> leaves exactly one
  row of that tuple, which holds the second value; the rows of every other tuple are
  unchanged, and the table stays keyed uniquely and satisfies the constraint
  \<^verbatim>\<open>uniq_org_project_key_period\<close> of the schema.
\<close>

theorem spec_upsertKpiSnapshot_twice:
  assumes "spec_kpi_keyed_uniquely (kpiSnapshots db)"
    and "kv_tuple v2 = kv_tuple v1"
  shows "length (filter (\<lambda>k. kpi_tuple k = kv_tuple v1)
            (kpiSnapshots (spec_upsertKpiSnapshot (spec_upsertKpiSnapshot db v1 now1) v2 now2))) = 1
   \<and> (\<forall>k\<in>set (kpiSnapshots (spec_upsertKpiSnapshot (spec_upsertKpiSnapshot db v1 now1) v2 now2)).
         kpi_tuple k = kv_tuple v1 \<longrightarrow> k_value k = kv_value v2)
   \<and> filter (\<lambda>k. kpi_tuple k \<noteq> kv_tuple v1)
         (kpiSnapshots (spec_upsertKpiSnapshot (spec_upsertKpiSnapshot db v1 now1) v2 now2))
       = filter (\<lambda>k. kpi_tuple k \<noteq> kv_tuple v1) (kpiSnapshots db)
   \<and> spec_kpi_keyed_uniquely
         (kpiSnapshots (spec_upsertKpiSnapshot (spec_upsertKpiSnapshot db v1 now1) v2 now2))
   \<and> uniq_org_project_key_period
         (kpiSnapshots (spec_upsertKpiSnapshot (spec_upsertKpiSnapshot db v1 now1) v2 now2))"
proof -
  let ?db1 = "spec_upsertKpiSnapshot db v1 now1"
  let ?db2 = "spec_upsertKpiSnapshot ?db1 v2 now2"
  have u: "spec_kpi_keyed_uniquely (kpiSnapshots ?db2)"
    by (intro upsert_keyed_uniquely assms(1))
  have "kv_tuple v2 \<in> set (map kpi_tuple (kpiSnapshots ?db2))"
    by (rule upsert_present)
  with u have one: "length (filter (\<lambda>k. kpi_tuple k = kv_tuple v1) (kpiSnapshots ?db2)) = 1"
    by (simp only: assms(2) spec_kpi_keyed_uniquely_def distinct_map_filter_one)
  have val: "\<forall>k\<in>set (kpiSnapshots ?db2). kpi_tuple k = kv_tuple v1 \<longrightarrow> k_value k = kv_value v2"
    using upsert_value [of _ ?db1 v2 now2] by (simp add: assms(2))
  have "filter (\<lambda>k. kpi_tuple k \<noteq> kv_tuple v2) (kpiSnapshots ?db2)
      = filter (\<lambda>k. kpi_tuple k \<noteq> kv_tuple v2) (kpiSnapshots ?db1)"
    by (rule upsert_others)
  also have "\<dots> = filter (\<lambda>k. kpi_tuple k \<noteq> kv_tuple v1) (kpiSnapshots db)"
    unfolding assms(2) by (rule upsert_others)
  finally have oth: "filter (\<lambda>k. kpi_tuple k \<noteq> kv_tuple v1) (kpiSnapshots ?db2)
      = filter (\<lambda>k. kpi_tuple k \<noteq> kv_tuple v1) (kpiSnapshots db)"
    by (simp add: assms(2))
  from one val oth u keyed_uniquely_constraint [OF u] show ?thesis
    by blast
qed

theorem spec_upsertKpiSnapshot_twice_witness:
  "map k_value
     (filter (\<lambda>k. kpi_tuple k = (1, Some 5, ''daily_page_views'', 1704067200000))
       (kpiSnapshots
         (spec_upsertKpiSnapshot (spec_upsertKpiSnapshot example_db (scenario_kpiValues 10) 1)
            (scenario_kpiValues 20) 2))) = [20]"
proof -
  let ?db2 = "spec_upsertKpiSnapshot (spec_upsertKpiSnapshot example_db (scenario_kpiValues 10) 1)
            (scenario_kpiValues 20) 2"
  let ?rows = "filter (\<lambda>k. kpi_tuple k = (1, Some 5, ''daily_page_views'', 1704067200000))
       (kpiSnapshots ?db2)"
  have uniq: "spec_kpi_keyed_uniquely (kpiSnapshots example_db)"
    by (simp add: spec_kpi_keyed_uniquely_def example_db_def example_kpi_def kpi_tuple_def)
  have same: "kv_tuple (scenario_kpiValues 20) = kv_tuple (scenario_kpiValues 10)"
    and t: "kv_tuple (scenario_kpiValues 10) = (1, Some 5, ''daily_page_views'', 1704067200000)"
    and v: "kv_value (scenario_kpiValues 20) = 20"
    by (simp_all add: kv_tuple_def scenario_kpiValues_def)
  note tw = spec_upsertKpiSnapshot_twice [OF uniq same, of 1 2, unfolded t v]
  from tw have len: "length ?rows = 1"
    by (elim conjE)
  then obtain k where k: "?rows = [k]"
    by (cases ?rows) auto
  then have "k \<in> set ?rows"
    by simp
  then have "k \<in> set (kpiSnapshots ?db2)" and "kpi_tuple k = (1, Some 5, ''daily_page_views'', 1704067200000)"
    by simp_all
  with tw have "k_value k = 20"
    by blast
  with k show ?thesis
    by simp
qed


end
